theory Spec2Isabelle
  imports Complex_Main
begin

section \<open>The value domain of C++ \<open>double\<close>\<close>

text \<open>
  The limit handles compute on \<open>double\<close> and use the quiet NaN as the "not yet
  initialised" sentinel of the cached position, so NaN and its comparison rules are part
  of the program's behaviour. A \<open>double\<close> is modelled by its value class: a NaN, one of
  the two infinities, or a finite number carried as a real. The operations follow the
  IEEE 754 rules for the special values (NaN is absorbing, every comparison with a NaN is
  false, \<open>\<infinity> - \<infinity>\<close>, \<open>0 * \<infinity>\<close>, \<open>0 / 0\<close> and \<open>\<infinity> / \<infinity>\<close> are NaN, a non-zero finite
  number divided by zero is an infinity). On finite operands the result is the exact
  real result: rounding, overflow to infinity and the sign of zero are abstracted away.
  The only divisor in the program is \<open>period.seconds()\<close>, whose zero is the positive one.
\<close>

datatype double = NaN | MInf | Fin real | PInf

fun isnan :: "double \<Rightarrow> bool" where
  "isnan NaN = True"
| "isnan _ = False"

fun isfinite :: "double \<Rightarrow> bool" where
  "isfinite (Fin _) = True"
| "isfinite _ = False"

instantiation double :: "{plus, minus, uminus, times, inverse, ord}"
begin

fun uminus_double :: "double \<Rightarrow> double" where
  "uminus_double NaN = NaN"
| "uminus_double MInf = PInf"
| "uminus_double PInf = MInf"
| "uminus_double (Fin x) = Fin (- x)"

fun plus_double :: "double \<Rightarrow> double \<Rightarrow> double" where
  "plus_double NaN _ = NaN"
| "plus_double _ NaN = NaN"
| "plus_double PInf MInf = NaN"
| "plus_double MInf PInf = NaN"
| "plus_double PInf _ = PInf"
| "plus_double _ PInf = PInf"
| "plus_double MInf _ = MInf"
| "plus_double _ MInf = MInf"
| "plus_double (Fin x) (Fin y) = Fin (x + y)"

definition minus_double :: "double \<Rightarrow> double \<Rightarrow> double" where
  "minus_double a b = a + (- b)"

fun times_double :: "double \<Rightarrow> double \<Rightarrow> double" where
  "times_double NaN _ = NaN"
| "times_double _ NaN = NaN"
| "times_double (Fin x) (Fin y) = Fin (x * y)"
| "times_double (Fin x) PInf = (if x = 0 then NaN else if 0 < x then PInf else MInf)"
| "times_double (Fin x) MInf = (if x = 0 then NaN else if 0 < x then MInf else PInf)"
| "times_double PInf (Fin y) = (if y = 0 then NaN else if 0 < y then PInf else MInf)"
| "times_double MInf (Fin y) = (if y = 0 then NaN else if 0 < y then MInf else PInf)"
| "times_double PInf PInf = PInf"
| "times_double MInf MInf = PInf"
| "times_double PInf MInf = MInf"
| "times_double MInf PInf = MInf"

fun divide_double :: "double \<Rightarrow> double \<Rightarrow> double" where
  "divide_double NaN _ = NaN"
| "divide_double _ NaN = NaN"
| "divide_double (Fin x) (Fin y) =
     (if y \<noteq> 0 then Fin (x / y)
      else if x = 0 then NaN else if 0 < x then PInf else MInf)"
| "divide_double (Fin x) PInf = Fin 0"
| "divide_double (Fin x) MInf = Fin 0"
| "divide_double PInf (Fin y) = (if 0 \<le> y then PInf else MInf)"
| "divide_double MInf (Fin y) = (if 0 \<le> y then MInf else PInf)"
| "divide_double PInf PInf = NaN"
| "divide_double PInf MInf = NaN"
| "divide_double MInf PInf = NaN"
| "divide_double MInf MInf = NaN"

definition inverse_double :: "double \<Rightarrow> double" where
  "inverse_double a = divide (Fin 1) a"

fun less_double :: "double \<Rightarrow> double \<Rightarrow> bool" where
  "less_double NaN _ = False"
| "less_double _ NaN = False"
| "less_double MInf MInf = False"
| "less_double MInf _ = True"
| "less_double (Fin x) (Fin y) = (x < y)"
| "less_double (Fin x) PInf = True"
| "less_double (Fin x) MInf = False"
| "less_double PInf _ = False"

fun less_eq_double :: "double \<Rightarrow> double \<Rightarrow> bool" where
  "less_eq_double NaN _ = False"
| "less_eq_double _ NaN = False"
| "less_eq_double MInf _ = True"
| "less_eq_double (Fin x) (Fin y) = (x \<le> y)"
| "less_eq_double (Fin x) PInf = True"
| "less_eq_double (Fin x) MInf = False"
| "less_eq_double PInf PInf = True"
| "less_eq_double PInf _ = False"

instance ..

end

text \<open>\<open>std::max(a, b)\<close> is \<open>(a < b) ? b : a\<close> and \<open>std::min(a, b)\<close> is \<open>(b < a) ? b : a\<close>:
  with a NaN as first argument both return the NaN.\<close>

definition std_max :: "double \<Rightarrow> double \<Rightarrow> double" where
  "std_max a b = (if a < b then b else a)"

definition std_min :: "double \<Rightarrow> double \<Rightarrow> double" where
  "std_min a b = (if b < a then b else a)"

text \<open>\<open>std::numeric_limits<double>::max()\<close>, the largest finite double:
  \<open>(2 ^ 53 - 1) * 2 ^ 971\<close>.\<close>

definition numeric_limits_max :: double where
  "numeric_limits_max = Fin ((2 ^ 53 - 1) * 2 ^ 971)"

definition quiet_NaN :: double where
  "quiet_NaN = NaN"


section \<open>Collaborators: durations, joint handles, limit specifications\<close>

text \<open>An \<open>rclcpp::Duration\<close> is a signed count of nanoseconds (64 bits in the source; no
  arithmetic is done on it here, so it is an \<open>int\<close>); \<open>seconds()\<close> converts it to a
  \<open>double\<close>, which is therefore always finite, and zero or negative when the count is.\<close>

type_synonym Duration = int

definition seconds :: "Duration \<Rightarrow> double" where
  "seconds period = Fin (real_of_int period / 1000000000)"

datatype error =
    JointLimitsInterfaceException string
  | AssertionFailed
  | NullPointerDereference
  | ParameterTypeException

text \<open>Sequencing of steps that may fail: the first failure ends the call.\<close>

definition and_then :: "error + 'a \<Rightarrow> ('a \<Rightarrow> error + 'b) \<Rightarrow> error + 'b" where
  "and_then m f = (case m of Inl e \<Rightarrow> Inl e | Inr x \<Rightarrow> f x)"

definition assert :: "bool \<Rightarrow> error + unit" where
  "assert b = (if b then Inr () else Inl AssertionFailed)"

text \<open>
  Modelled from the spec: \<open>hardware_interface::JointHandle\<close> (its header is not among the
  sources): a name and one value, read with \<open>get_value()\<close> and written with \<open>set_value\<close>.
  A limit handle holds \<open>std::shared_ptr\<close>s to joint handles; a pointer is \<open>None\<close> when
  null, and dereferencing a null pointer is the error \<open>NullPointerDereference\<close>. The
  joint handles of one limit handle are taken to be distinct objects.
\<close>

record JointHandle =
  handle_name :: string
  handle_value :: double

definition get_value :: "JointHandle option \<Rightarrow> error + double" where
  "get_value p = (case p of None \<Rightarrow> Inl NullPointerDereference | Some j \<Rightarrow> Inr (handle_value j))"

definition set_value :: "JointHandle option \<Rightarrow> double \<Rightarrow> error + JointHandle option" where
  "set_value p v =
     (case p of None \<Rightarrow> Inl NullPointerDereference
      | Some j \<Rightarrow> Inr (Some (j\<lparr>handle_value := v\<rparr>)))"

text \<open>
  Modelled from the spec: \<open>JointLimits\<close> and \<open>SoftJointLimits\<close> of \<open>joint_limits.hpp\<close>
  (not among the sources), with the fields the spec's data model lists. The two position
  fields of \<open>SoftJointLimits\<close> are \<open>min_position\<close> and \<open>max_position\<close> in the source; they
  carry the prefix \<open>soft_\<close> here to keep them apart from those of \<open>JointLimits\<close>.
\<close>

record JointLimits =
  min_position :: double
  max_position :: double
  max_velocity :: double
  max_acceleration :: double
  max_jerk :: double
  max_effort :: double
  has_position_limits :: bool
  has_velocity_limits :: bool
  has_acceleration_limits :: bool
  has_jerk_limits :: bool
  has_effort_limits :: bool
  angle_wraparound :: bool

record SoftJointLimits =
  soft_min_position :: double
  soft_max_position :: double
  k_position :: double
  k_velocity :: double

text \<open>
  Modelled from the spec: \<open>rcppmath::clamp\<close> (header \<open>rcppmath/clamp.hpp\<close>, not among the
  sources). The spec says that it clamps a value into an interval; the model takes it
  to be the \<open>std::clamp\<close> of C++17 with its precondition as an assertion: it asserts
  \<open>!(hi < lo)\<close> and returns \<open>(v < lo) ? lo : (hi < v) ? hi : v\<close>. \<open>clamp_value\<close> is the
  returned expression alone, which is what a build with assertions compiled out
  computes. The \<open>assert\<close> of \<open><cassert>\<close> ends the call with \<open>AssertionFailed\<close>.
\<close>

definition clamp_value :: "double \<Rightarrow> double \<Rightarrow> double \<Rightarrow> double" where
  "clamp_value v lo hi = (if v < lo then lo else if hi < v then hi else v)"

definition clamp :: "double \<Rightarrow> double \<Rightarrow> double \<Rightarrow> error + double" where
  "clamp v lo hi = and_then (assert (\<not> hi < lo)) (\<lambda>_. Inr (clamp_value v lo hi))"

section \<open>The limit handles\<close>

subsection \<open>\<open>JointSaturationLimitHandle\<close>: the shared state\<close>

record JointSaturationLimitHandle =
  jposh :: "JointHandle option"
  jvelh :: "JointHandle option"
  jcmdh :: "JointHandle option"
  limits :: JointLimits
  prev_pos :: double
  prev_vel :: double

definition JointSaturationLimitHandle_init3 ::
  "JointHandle option \<Rightarrow> JointHandle option \<Rightarrow> JointLimits \<Rightarrow> JointSaturationLimitHandle" where
  "JointSaturationLimitHandle_init3 jposh0 jcmdh0 limits0 =
     \<lparr>jposh = jposh0, jvelh = None, jcmdh = jcmdh0, limits = limits0,
      prev_pos = quiet_NaN, prev_vel = Fin 0\<rparr>"

definition JointSaturationLimitHandle_init4 ::
  "JointHandle option \<Rightarrow> JointHandle option \<Rightarrow> JointHandle option \<Rightarrow> JointLimits
   \<Rightarrow> JointSaturationLimitHandle" where
  "JointSaturationLimitHandle_init4 jposh0 jvelh0 jcmdh0 limits0 =
     \<lparr>jposh = jposh0, jvelh = jvelh0, jcmdh = jcmdh0, limits = limits0,
      prev_pos = quiet_NaN, prev_vel = Fin 0\<rparr>"

definition get_name :: "'a JointSaturationLimitHandle_scheme \<Rightarrow> string" where
  "get_name h =
     (case jposh h of Some j \<Rightarrow> handle_name j
      | None \<Rightarrow> (case jvelh h of Some j \<Rightarrow> handle_name j
          | None \<Rightarrow> (case jcmdh h of Some j \<Rightarrow> handle_name j
              | None \<Rightarrow> [])))"

definition reset :: "'a JointSaturationLimitHandle_scheme \<Rightarrow> 'a JointSaturationLimitHandle_scheme" where
  "reset h = h\<lparr>prev_pos := quiet_NaN, prev_vel := Fin 0\<rparr>"

definition get_velocity :: "'a JointSaturationLimitHandle_scheme \<Rightarrow> Duration \<Rightarrow> error + double" where
  "get_velocity h period =
     (case jvelh h of
        Some j \<Rightarrow> Inr (handle_value j)
      | None \<Rightarrow> and_then (get_value (jposh h)) (\<lambda>pos. Inr ((pos - prev_pos h) / seconds period)))"

text \<open>The messages of the exceptions the constructors throw.\<close>

definition no_velocity_limits :: "'a JointSaturationLimitHandle_scheme \<Rightarrow> error" where
  "no_velocity_limits h =
     JointLimitsInterfaceException
       (''Cannot enforce limits for joint '' @ [CHR 0x27] @ get_name h @ [CHR 0x27]
        @ ''. It has no velocity limits specification.'')"

definition no_efforts_limits :: "'a JointSaturationLimitHandle_scheme \<Rightarrow> error" where
  "no_efforts_limits h =
     JointLimitsInterfaceException
       (''Cannot enforce limits for joint '' @ [CHR 0x27] @ get_name h @ [CHR 0x27]
        @ ''. It has no efforts limits specification.'')"

definition no_effort_limits :: "'a JointSaturationLimitHandle_scheme \<Rightarrow> error" where
  "no_effort_limits h =
     JointLimitsInterfaceException
       (''Cannot enforce limits for joint '' @ [CHR 0x27] @ get_name h @ [CHR 0x27]
        @ ''. It has no effort limits specification.'')"

subsection \<open>\<open>JointSoftLimitsHandle\<close>\<close>

record JointSoftLimitsHandle = JointSaturationLimitHandle +
  soft_limits :: SoftJointLimits

definition JointSoftLimitsHandle_init3 ::
  "JointHandle option \<Rightarrow> JointHandle option \<Rightarrow> JointLimits \<Rightarrow> SoftJointLimits
   \<Rightarrow> JointSoftLimitsHandle" where
  "JointSoftLimitsHandle_init3 jposh0 jcmdh0 limits0 soft_limits0 =
     \<lparr>jposh = jposh0, jvelh = None, jcmdh = jcmdh0, limits = limits0,
      prev_pos = quiet_NaN, prev_vel = Fin 0, soft_limits = soft_limits0\<rparr>"

definition JointSoftLimitsHandle_init4 ::
  "JointHandle option \<Rightarrow> JointHandle option \<Rightarrow> JointHandle option \<Rightarrow> JointLimits
   \<Rightarrow> SoftJointLimits \<Rightarrow> JointSoftLimitsHandle" where
  "JointSoftLimitsHandle_init4 jposh0 jvelh0 jcmdh0 limits0 soft_limits0 =
     \<lparr>jposh = jposh0, jvelh = jvelh0, jcmdh = jcmdh0, limits = limits0,
      prev_pos = quiet_NaN, prev_vel = Fin 0, soft_limits = soft_limits0\<rparr>"

text \<open>The proportional law both position-aware soft policies use: the velocity bounds
  near the soft band, each clamped to \<open>\<plusminus>max_vel\<close>.\<close>

definition soft_velocity_bounds ::
  "SoftJointLimits \<Rightarrow> double \<Rightarrow> double \<Rightarrow> error + (double \<times> double)" where
  "soft_velocity_bounds sl pos max_vel =
     and_then (clamp (- k_position sl * (pos - soft_min_position sl)) (- max_vel) max_vel)
       (\<lambda>soft_min_vel.
     and_then (clamp (- k_position sl * (pos - soft_max_position sl)) (- max_vel) max_vel)
       (\<lambda>soft_max_vel.
     Inr (soft_min_vel, soft_max_vel)))"


subsection \<open>\<open>PositionJointSaturationHandle\<close>\<close>

record PositionJointSaturationHandle = JointSaturationLimitHandle +
  min_pos_limit :: double
  max_pos_limit :: double

definition PositionJointSaturationHandle_init ::
  "JointHandle option \<Rightarrow> JointHandle option \<Rightarrow> JointLimits \<Rightarrow> PositionJointSaturationHandle" where
  "PositionJointSaturationHandle_init jposh0 jcmdh0 limits0 =
     \<lparr>jposh = jposh0, jvelh = None, jcmdh = jcmdh0, limits = limits0,
      prev_pos = quiet_NaN, prev_vel = Fin 0,
      min_pos_limit = (if has_position_limits limits0 then min_position limits0
                       else - numeric_limits_max),
      max_pos_limit = (if has_position_limits limits0 then max_position limits0
                       else numeric_limits_max)\<rparr>"

text \<open>The first step of \<open>enforceLimits\<close>: a cached position that is still the NaN
  sentinel is seeded from the position handle.\<close>

definition seed_prev_pos ::
  "'a JointSaturationLimitHandle_scheme \<Rightarrow> error + 'a JointSaturationLimitHandle_scheme" where
  "seed_prev_pos h =
     (if isnan (prev_pos h)
      then and_then (get_value (jposh h)) (\<lambda>pos. Inr (h\<lparr>prev_pos := pos\<rparr>))
      else Inr h)"

text \<open>The interval \<open>(min_pos, max_pos)\<close> of the cycle, from the seeded state.\<close>

definition PositionJointSaturationHandle_bounds ::
  "PositionJointSaturationHandle \<Rightarrow> Duration \<Rightarrow> double \<times> double" where
  "PositionJointSaturationHandle_bounds h period =
     (if has_velocity_limits (limits h) then
        let delta_pos = max_velocity (limits h) * seconds period
        in (std_max (prev_pos h - delta_pos) (min_pos_limit h),
            std_min (prev_pos h + delta_pos) (max_pos_limit h))
      else (min_pos_limit h, max_pos_limit h))"

definition PositionJointSaturationHandle_enforceLimits ::
  "PositionJointSaturationHandle \<Rightarrow> Duration \<Rightarrow> error + PositionJointSaturationHandle" where
  "PositionJointSaturationHandle_enforceLimits h0 period =
     and_then (seed_prev_pos h0) (\<lambda>h.
     case PositionJointSaturationHandle_bounds h period of (min_pos, max_pos) \<Rightarrow>
     and_then (get_value (jcmdh h)) (\<lambda>v.
     and_then (clamp v min_pos max_pos) (\<lambda>cmd.
     and_then (set_value (jcmdh h) cmd) (\<lambda>c.
     Inr (h\<lparr>jcmdh := c, prev_pos := cmd\<rparr>)))))"

subsection \<open>\<open>PositionJointSoftLimitsHandle\<close>\<close>

type_synonym PositionJointSoftLimitsHandle = JointSoftLimitsHandle

definition PositionJointSoftLimitsHandle_init ::
  "JointHandle option \<Rightarrow> JointHandle option \<Rightarrow> JointLimits \<Rightarrow> SoftJointLimits
   \<Rightarrow> error + PositionJointSoftLimitsHandle" where
  "PositionJointSoftLimitsHandle_init jposh0 jcmdh0 limits0 soft_limits0 =
     (let h = JointSoftLimitsHandle_init3 jposh0 jcmdh0 limits0 soft_limits0
      in if \<not> has_velocity_limits limits0 then Inl (no_velocity_limits h) else Inr h)"

text \<open>The interval \<open>(pos_low, pos_high)\<close> of the cycle, from the seeded state; the two
  intermediate soft velocities are returned with it.\<close>

definition PositionJointSoftLimitsHandle_soft_vel ::
  "PositionJointSoftLimitsHandle \<Rightarrow> error + (double \<times> double)" where
  "PositionJointSoftLimitsHandle_soft_vel h =
     (if has_position_limits (limits h)
      then soft_velocity_bounds (soft_limits h) (prev_pos h) (max_velocity (limits h))
      else Inr (- max_velocity (limits h), max_velocity (limits h)))"

definition PositionJointSoftLimitsHandle_bounds ::
  "PositionJointSoftLimitsHandle \<Rightarrow> Duration \<Rightarrow> error + (double \<times> double)" where
  "PositionJointSoftLimitsHandle_bounds h period =
     and_then (PositionJointSoftLimitsHandle_soft_vel h) (\<lambda>(soft_min_vel, soft_max_vel).
       let pos = prev_pos h;
           dt = seconds period;
           pos_low = pos + soft_min_vel * dt;
           pos_high = pos + soft_max_vel * dt
       in if has_position_limits (limits h)
          then Inr (std_max pos_low (min_position (limits h)),
                    std_min pos_high (max_position (limits h)))
          else Inr (pos_low, pos_high))"

definition PositionJointSoftLimitsHandle_enforceLimits ::
  "PositionJointSoftLimitsHandle \<Rightarrow> Duration \<Rightarrow> error + PositionJointSoftLimitsHandle" where
  "PositionJointSoftLimitsHandle_enforceLimits h0 period =
     and_then (assert (seconds period > Fin 0)) (\<lambda>_.
     and_then (seed_prev_pos h0) (\<lambda>h.
     and_then (PositionJointSoftLimitsHandle_bounds h period) (\<lambda>(pos_low, pos_high).
     and_then (get_value (jcmdh h)) (\<lambda>v.
     and_then (clamp v pos_low pos_high) (\<lambda>pos_cmd.
     and_then (set_value (jcmdh h) pos_cmd) (\<lambda>c.
     and_then (get_value c) (\<lambda>written.
     Inr (h\<lparr>jcmdh := c, prev_pos := written\<rparr>))))))))"

subsection \<open>\<open>EffortJointSaturationHandle\<close>\<close>

type_synonym EffortJointSaturationHandle = JointSaturationLimitHandle

definition EffortJointSaturationHandle_init4 ::
  "JointHandle option \<Rightarrow> JointHandle option \<Rightarrow> JointHandle option \<Rightarrow> JointLimits
   \<Rightarrow> error + EffortJointSaturationHandle" where
  "EffortJointSaturationHandle_init4 jposh0 jvelh0 jcmdh0 limits0 =
     (let h = JointSaturationLimitHandle_init4 jposh0 jvelh0 jcmdh0 limits0
      in if \<not> has_velocity_limits limits0 then Inl (no_velocity_limits h)
         else if \<not> has_effort_limits limits0 then Inl (no_efforts_limits h)
         else Inr h)"

definition EffortJointSaturationHandle_init3 ::
  "JointHandle option \<Rightarrow> JointHandle option \<Rightarrow> JointLimits
   \<Rightarrow> error + EffortJointSaturationHandle" where
  "EffortJointSaturationHandle_init3 jh jcmdh0 limits0 =
     EffortJointSaturationHandle_init4 jh None jcmdh0 limits0"

text \<open>The effort window after the position check, and after the velocity check.\<close>

definition EffortJointSaturationHandle_position_check ::
  "EffortJointSaturationHandle \<Rightarrow> error + (double \<times> double)" where
  "EffortJointSaturationHandle_position_check h =
     (let min_eff = - max_effort (limits h);
          max_eff = max_effort (limits h)
      in if has_position_limits (limits h) then
           and_then (get_value (jposh h)) (\<lambda>pos.
             if pos < min_position (limits h) then Inr (Fin 0, max_eff)
             else if pos > max_position (limits h) then Inr (min_eff, Fin 0)
             else Inr (min_eff, max_eff))
         else Inr (min_eff, max_eff))"

definition EffortJointSaturationHandle_bounds ::
  "EffortJointSaturationHandle \<Rightarrow> Duration \<Rightarrow> error + (double \<times> double)" where
  "EffortJointSaturationHandle_bounds h period =
     and_then (EffortJointSaturationHandle_position_check h) (\<lambda>(min_eff, max_eff).
     and_then (get_velocity h period) (\<lambda>vel.
       if vel < - max_velocity (limits h) then Inr (Fin 0, max_eff)
       else if vel > max_velocity (limits h) then Inr (min_eff, Fin 0)
       else Inr (min_eff, max_eff)))"

definition EffortJointSaturationHandle_enforceLimits ::
  "EffortJointSaturationHandle \<Rightarrow> Duration \<Rightarrow> error + EffortJointSaturationHandle" where
  "EffortJointSaturationHandle_enforceLimits h period =
     and_then (EffortJointSaturationHandle_bounds h period) (\<lambda>(min_eff, max_eff).
     and_then (get_value (jcmdh h)) (\<lambda>v.
     and_then (clamp v min_eff max_eff) (\<lambda>clamped.
     and_then (set_value (jcmdh h) clamped) (\<lambda>c.
     Inr (h\<lparr>jcmdh := c\<rparr>)))))"

subsection \<open>\<open>EffortJointSoftLimitsHandle\<close>\<close>

type_synonym EffortJointSoftLimitsHandle = JointSoftLimitsHandle

definition EffortJointSoftLimitsHandle_init4 ::
  "JointHandle option \<Rightarrow> JointHandle option \<Rightarrow> JointHandle option \<Rightarrow> JointLimits
   \<Rightarrow> SoftJointLimits \<Rightarrow> error + EffortJointSoftLimitsHandle" where
  "EffortJointSoftLimitsHandle_init4 jposh0 jvelh0 jcmdh0 limits0 soft_limits0 =
     (let h = JointSoftLimitsHandle_init4 jposh0 jvelh0 jcmdh0 limits0 soft_limits0
      in if \<not> has_velocity_limits limits0 then Inl (no_velocity_limits h)
         else if \<not> has_effort_limits limits0 then Inl (no_effort_limits h)
         else Inr h)"

definition EffortJointSoftLimitsHandle_init3 ::
  "JointHandle option \<Rightarrow> JointHandle option \<Rightarrow> JointLimits \<Rightarrow> SoftJointLimits
   \<Rightarrow> error + EffortJointSoftLimitsHandle" where
  "EffortJointSoftLimitsHandle_init3 jh jcmdh0 limits0 soft_limits0 =
     EffortJointSoftLimitsHandle_init4 jh None jcmdh0 limits0 soft_limits0"

definition EffortJointSoftLimitsHandle_bounds ::
  "EffortJointSoftLimitsHandle \<Rightarrow> Duration \<Rightarrow> error + (double \<times> double)" where
  "EffortJointSoftLimitsHandle_bounds h period =
     and_then (get_value (jposh h)) (\<lambda>pos.
     and_then (get_velocity h period) (\<lambda>vel.
     and_then
       (if has_position_limits (limits h)
        then soft_velocity_bounds (soft_limits h) pos (max_velocity (limits h))
        else Inr (- max_velocity (limits h), max_velocity (limits h)))
       (\<lambda>(soft_min_vel, soft_max_vel).
     and_then (clamp (- k_velocity (soft_limits h) * (vel - soft_min_vel))
                 (- max_effort (limits h)) (max_effort (limits h))) (\<lambda>soft_min_eff.
     and_then (clamp (- k_velocity (soft_limits h) * (vel - soft_max_vel))
                 (- max_effort (limits h)) (max_effort (limits h))) (\<lambda>soft_max_eff.
     Inr (soft_min_eff, soft_max_eff))))))"

definition EffortJointSoftLimitsHandle_enforceLimits ::
  "EffortJointSoftLimitsHandle \<Rightarrow> Duration \<Rightarrow> error + EffortJointSoftLimitsHandle" where
  "EffortJointSoftLimitsHandle_enforceLimits h period =
     and_then (EffortJointSoftLimitsHandle_bounds h period) (\<lambda>(soft_min_eff, soft_max_eff).
     and_then (get_value (jcmdh h)) (\<lambda>v.
     and_then (clamp v soft_min_eff soft_max_eff) (\<lambda>eff_cmd.
     and_then (set_value (jcmdh h) eff_cmd) (\<lambda>c.
     Inr (h\<lparr>jcmdh := c\<rparr>)))))"

subsection \<open>\<open>VelocityJointSaturationHandle\<close>\<close>

type_synonym VelocityJointSaturationHandle = JointSaturationLimitHandle

definition VelocityJointSaturationHandle_init3 ::
  "JointHandle option \<Rightarrow> JointHandle option \<Rightarrow> JointLimits
   \<Rightarrow> error + VelocityJointSaturationHandle" where
  "VelocityJointSaturationHandle_init3 jvelh0 jcmdh0 limits0 =
     (let h = JointSaturationLimitHandle_init4 None jvelh0 jcmdh0 limits0
      in if \<not> has_velocity_limits limits0 then Inl (no_velocity_limits h) else Inr h)"

definition VelocityJointSaturationHandle_init2 ::
  "JointHandle option \<Rightarrow> JointLimits \<Rightarrow> error + VelocityJointSaturationHandle" where
  "VelocityJointSaturationHandle_init2 jcmdh0 limits0 =
     (let h = JointSaturationLimitHandle_init4 None None jcmdh0 limits0
      in if \<not> has_velocity_limits limits0 then Inl (no_velocity_limits h) else Inr h)"



subsection \<open>\<open>VelocityJointSoftLimitsHandle\<close>\<close>

record VelocityJointSoftLimitsHandle = JointSoftLimitsHandle +
  max_vel_limit :: double

definition VelocityJointSoftLimitsHandle_init ::
  "JointHandle option \<Rightarrow> JointHandle option \<Rightarrow> JointHandle option \<Rightarrow> JointLimits
   \<Rightarrow> SoftJointLimits \<Rightarrow> error + VelocityJointSoftLimitsHandle" where
  "VelocityJointSoftLimitsHandle_init jposh0 jvelh0 jcmdh0 limits0 soft_limits0 =
     Inr \<lparr>jposh = jposh0, jvelh = jvelh0, jcmdh = jcmdh0, limits = limits0,
          prev_pos = quiet_NaN, prev_vel = Fin 0, soft_limits = soft_limits0,
          max_vel_limit = (if has_velocity_limits limits0 then max_velocity limits0
                           else numeric_limits_max)\<rparr>"

definition VelocityJointSoftLimitsHandle_bounds ::
  "VelocityJointSoftLimitsHandle \<Rightarrow> Duration \<Rightarrow> error + (double \<times> double)" where
  "VelocityJointSoftLimitsHandle_bounds h period =
     and_then
       (if has_position_limits (limits h) then
          and_then (get_value (jposh h)) (\<lambda>pos.
            soft_velocity_bounds (soft_limits h) pos (max_vel_limit h))
        else Inr (- max_vel_limit h, max_vel_limit h))
       (\<lambda>(min_vel, max_vel).
          if has_acceleration_limits (limits h) then
            and_then (get_velocity h period) (\<lambda>vel.
              let delta_t = seconds period
              in Inr (std_max (vel - max_acceleration (limits h) * delta_t) min_vel,
                      std_min (vel + max_acceleration (limits h) * delta_t) max_vel))
          else Inr (min_vel, max_vel))"

definition VelocityJointSoftLimitsHandle_enforceLimits ::
  "VelocityJointSoftLimitsHandle \<Rightarrow> Duration \<Rightarrow> error + VelocityJointSoftLimitsHandle" where
  "VelocityJointSoftLimitsHandle_enforceLimits h period =
     and_then (VelocityJointSoftLimitsHandle_bounds h period) (\<lambda>(min_vel, max_vel).
     and_then (get_value (jcmdh h)) (\<lambda>v.
     and_then (clamp v min_vel max_vel) (\<lambda>cmd.
     and_then (set_value (jcmdh h) cmd) (\<lambda>c.
     Inr (h\<lparr>jcmdh := c\<rparr>)))))"


subsection \<open>A handle inside its control loop\<close>

text \<open>
  Between two calls of a handle's own operations the surrounding program writes the
  joint handles: the hardware layer the measured position and velocity, the controller
  the next command. An event is one such write, a call of \<open>enforceLimits\<close> or a call of
  \<open>reset\<close>; a run executes a list of events and stops at the first failure.
\<close>

datatype event =
    Enforce Duration
  | Reset
  | SetPosition double
  | SetVelocity double
  | SetCommand double

definition write_handle :: "JointHandle option \<Rightarrow> double \<Rightarrow> JointHandle option" where
  "write_handle p v = map_option (\<lambda>j. j\<lparr>handle_value := v\<rparr>) p"

fun step ::
  "('a JointSaturationLimitHandle_scheme \<Rightarrow> Duration \<Rightarrow> error + 'a JointSaturationLimitHandle_scheme)
   \<Rightarrow> 'a JointSaturationLimitHandle_scheme \<Rightarrow> event
   \<Rightarrow> error + 'a JointSaturationLimitHandle_scheme" where
  "step enforce h (Enforce period) = enforce h period"
| "step enforce h Reset = Inr (reset h)"
| "step enforce h (SetPosition v) = Inr (h\<lparr>jposh := write_handle (jposh h) v\<rparr>)"
| "step enforce h (SetVelocity v) = Inr (h\<lparr>jvelh := write_handle (jvelh h) v\<rparr>)"
| "step enforce h (SetCommand v) = Inr (h\<lparr>jcmdh := write_handle (jcmdh h) v\<rparr>)"

fun run ::
  "('a JointSaturationLimitHandle_scheme \<Rightarrow> Duration \<Rightarrow> error + 'a JointSaturationLimitHandle_scheme)
   \<Rightarrow> 'a JointSaturationLimitHandle_scheme \<Rightarrow> event list
   \<Rightarrow> error + 'a JointSaturationLimitHandle_scheme" where
  "run enforce h [] = Inr h"
| "run enforce h (ev # evs) = and_then (step enforce h ev) (\<lambda>h'. run enforce h' evs)"

section \<open>Loading soft limits from the parameter server\<close>

text \<open>
  Modelled from the spec: the parameters of an \<open>rclcpp::Node\<close> (not among the sources),
  a finite table from names to typed values. \<open>has_parameter\<close> tells whether a name is in
  the table; \<open>get_parameter(name, out)\<close> returns false and leaves \<open>out\<close> alone when it is
  not, writes the value and returns true when it is, and throws when the value's type is
  not the type of \<open>out\<close>. The result \<open>None\<close> stands for "returned false", \<open>Some v\<close> for
  "returned true and wrote \<open>v\<close>".
\<close>

datatype ParameterValue = PBool bool | PInteger int | PDouble double | PString string

type_synonym Node = "string \<Rightarrow> ParameterValue option"

definition has_parameter :: "Node \<Rightarrow> string \<Rightarrow> bool" where
  "has_parameter node name = (node name \<noteq> None)"

definition get_parameter_bool :: "Node \<Rightarrow> string \<Rightarrow> error + bool option" where
  "get_parameter_bool node name =
     (case node name of None \<Rightarrow> Inr None
      | Some (PBool b) \<Rightarrow> Inr (Some b)
      | Some _ \<Rightarrow> Inl ParameterTypeException)"

definition get_parameter_double :: "Node \<Rightarrow> string \<Rightarrow> error + double option" where
  "get_parameter_double node name =
     (case node name of None \<Rightarrow> Inr None
      | Some (PDouble d) \<Rightarrow> Inr (Some d)
      | Some _ \<Rightarrow> Inl ParameterTypeException)"

text \<open>\<open>getSoftJointLimits\<close> returns its boolean together with the \<open>soft_limits\<close>
  argument (here \<open>sl\<close>) as the call leaves it.\<close>

definition getSoftJointLimits ::
  "string \<Rightarrow> Node \<Rightarrow> SoftJointLimits \<Rightarrow> error + (bool \<times> SoftJointLimits)" where
  "getSoftJointLimits joint_name node sl =
     (let param_base_name = ''joint_limits.'' @ joint_name
      in if \<not> has_parameter node (param_base_name @ ''.has_soft_limits'') \<and>
            \<not> has_parameter node (param_base_name @ ''.k_velocity'') \<and>
            \<not> has_parameter node (param_base_name @ ''.k_position'') \<and>
            \<not> has_parameter node (param_base_name @ ''.soft_lower_limit'') \<and>
            \<not> has_parameter node (param_base_name @ ''.soft_upper_limit'')
         then Inr (False, sl)
         else
           and_then (get_parameter_bool node (param_base_name @ ''.has_soft_limits''))
             (\<lambda>got. case got of
                None \<Rightarrow> Inr (False, sl)
              | Some has_soft_limits \<Rightarrow>
                  if has_soft_limits \<and>
                     has_parameter node (param_base_name @ ''.k_position'') \<and>
                     has_parameter node (param_base_name @ ''.k_velocity'') \<and>
                     has_parameter node (param_base_name @ ''.soft_lower_limit'') \<and>
                     has_parameter node (param_base_name @ ''.soft_upper_limit'')
                  then
                    and_then (get_parameter_double node (param_base_name @ ''.k_position''))
                      (\<lambda>kp.
                    and_then (get_parameter_double node (param_base_name @ ''.k_velocity''))
                      (\<lambda>kv.
                    and_then (get_parameter_double node (param_base_name @ ''.soft_lower_limit''))
                      (\<lambda>lo.
                    and_then (get_parameter_double node (param_base_name @ ''.soft_upper_limit''))
                      (\<lambda>hi.
                    Inr (True,
                         sl\<lparr>k_position := case_option (k_position sl) id kp,
                                     k_velocity := case_option (k_velocity sl) id kv,
                                     soft_min_position :=
                                       case_option (soft_min_position sl) id lo,
                                     soft_max_position :=
                                       case_option (soft_max_position sl) id hi\<rparr>)))))
                  else Inr (False, sl)))"


section \<open>Vocabulary of the properties\<close>

text \<open>A configuration error is the exception a constructor throws.\<close>

definition is_configuration_error :: "error + 'a \<Rightarrow> bool" where
  "is_configuration_error r =
     (case r of Inl (JointLimitsInterfaceException _) \<Rightarrow> True | _ \<Rightarrow> False)"

section \<open>Scenarios\<close>

text \<open>The concrete handles and limits the scenarios below are run on.\<close>

definition joint :: "double \<Rightarrow> JointHandle option" where
  "joint v = Some \<lparr>handle_name = ''foo_joint'', handle_value = v\<rparr>"

definition position_scenario_limits :: JointLimits where
  "position_scenario_limits =
     \<lparr>min_position = Fin (- 1), max_position = Fin 1, max_velocity = Fin 2,
      max_acceleration = Fin 0, max_jerk = Fin 0, max_effort = Fin 0,
      has_position_limits = True, has_velocity_limits = True,
      has_acceleration_limits = False, has_jerk_limits = False,
      has_effort_limits = False, angle_wraparound = False\<rparr>"

definition position_scenario_handle :: PositionJointSaturationHandle where
  "position_scenario_handle =
     \<lparr>jposh = joint (Fin 0), jvelh = None, jcmdh = joint (Fin 5),
      limits = position_scenario_limits, prev_pos = Fin 0, prev_vel = Fin 0,
      min_pos_limit = Fin (- 1), max_pos_limit = Fin 1\<rparr>"




definition no_velocity_scenario_limits :: JointLimits where
  "no_velocity_scenario_limits =
     \<lparr>min_position = Fin (- 1), max_position = Fin 1, max_velocity = Fin 0,
      max_acceleration = Fin 1, max_jerk = Fin 0, max_effort = Fin 20,
      has_position_limits = True, has_velocity_limits = False,
      has_acceleration_limits = True, has_jerk_limits = False,
      has_effort_limits = True, angle_wraparound = False\<rparr>"

definition scenario_soft_limits :: SoftJointLimits where
  "scenario_soft_limits =
     \<lparr>soft_min_position = Fin (- 0.5), soft_max_position = Fin 0.5,
      k_position = Fin 10, k_velocity = Fin 10\<rparr>"

definition effort_scenario_limits :: JointLimits where
  "effort_scenario_limits =
     \<lparr>min_position = Fin (- 1), max_position = Fin 1, max_velocity = Fin 5,
      max_acceleration = Fin 1, max_jerk = Fin 0, max_effort = Fin 20,
      has_position_limits = True, has_velocity_limits = True,
      has_acceleration_limits = True, has_jerk_limits = False,
      has_effort_limits = True, angle_wraparound = False\<rparr>"

definition effort_no_velocity_handle :: EffortJointSaturationHandle where
  "effort_no_velocity_handle =
     \<lparr>jposh = joint (Fin 1), jvelh = None, jcmdh = joint (Fin 15),
      limits = effort_scenario_limits, prev_pos = NaN, prev_vel = Fin 0\<rparr>"

definition velocity_soft_no_velocity_handle :: VelocityJointSoftLimitsHandle where
  "velocity_soft_no_velocity_handle =
     \<lparr>jposh = joint (Fin 0), jvelh = None, jcmdh = joint (Fin 1000),
      limits = effort_scenario_limits, prev_pos = NaN, prev_vel = Fin 0,
      soft_limits = scenario_soft_limits, max_vel_limit = Fin 5\<rparr>"

definition effort_violation_handle :: EffortJointSaturationHandle where
  "effort_violation_handle =
     \<lparr>jposh = joint (Fin 2), jvelh = joint (Fin 0), jcmdh = joint (Fin 15),
      limits = effort_scenario_limits, prev_pos = NaN, prev_vel = Fin 0\<rparr>"

definition effort_retreating_handle :: EffortJointSaturationHandle where
  "effort_retreating_handle =
     \<lparr>jposh = joint (Fin 2), jvelh = joint (Fin (- 6)), jcmdh = joint (Fin (- 15)),
      limits = effort_scenario_limits, prev_pos = NaN, prev_vel = Fin 0\<rparr>"

definition pathological_limits :: JointLimits where
  "pathological_limits =
     \<lparr>min_position = Fin 0, max_position = Fin 1, max_velocity = Fin 2,
      max_acceleration = Fin 0, max_jerk = Fin 0, max_effort = Fin 0,
      has_position_limits = True, has_velocity_limits = True,
      has_acceleration_limits = False, has_jerk_limits = False,
      has_effort_limits = False, angle_wraparound = False\<rparr>"

definition soft_edge_handle :: PositionJointSoftLimitsHandle where
  "soft_edge_handle =
     \<lparr>jposh = joint (Fin (- 0.5)), jvelh = None, jcmdh = joint (Fin (- 0.5)),
      limits = pathological_limits, prev_pos = Fin (- 0.5), prev_vel = Fin 0,
      soft_limits = scenario_soft_limits\<rparr>"

definition soft_edge_inside_handle :: PositionJointSoftLimitsHandle where
  "soft_edge_inside_handle =
     \<lparr>jposh = joint (Fin (- 0.5)), jvelh = None, jcmdh = joint (Fin (- 3)),
      limits = position_scenario_limits, prev_pos = Fin (- 0.5), prev_vel = Fin 0,
      soft_limits = scenario_soft_limits\<rparr>"

definition position_outside_handle :: PositionJointSaturationHandle where
  "position_outside_handle =
     \<lparr>jposh = joint (Fin 5), jvelh = None, jcmdh = joint (Fin 0),
      limits = position_scenario_limits, prev_pos = Fin 5, prev_vel = Fin 0,
      min_pos_limit = Fin (- 1), max_pos_limit = Fin 1\<rparr>"

definition soft_outside_handle :: PositionJointSoftLimitsHandle where
  "soft_outside_handle =
     \<lparr>jposh = joint (Fin 5), jvelh = None, jcmdh = joint (Fin 0),
      limits = position_scenario_limits, prev_pos = Fin 5, prev_vel = Fin 0,
      soft_limits = scenario_soft_limits\<rparr>"

definition documented_node :: Node where
  "documented_node =
     map_of [(''joint_limits.foo_joint.soft_lower_limit'', PDouble (Fin 0)),
             (''joint_limits.foo_joint.soft_upper_limit'', PDouble (Fin 1)),
             (''joint_limits.foo_joint.k_position'', PDouble (Fin 10)),
             (''joint_limits.foo_joint.k_velocity'', PDouble (Fin 10))]"

definition flagged_node :: Node where
  "flagged_node =
     map_of [(''joint_limits.foo_joint.has_soft_limits'', PBool True),
             (''joint_limits.foo_joint.soft_lower_limit'', PDouble (Fin 0)),
             (''joint_limits.foo_joint.soft_upper_limit'', PDouble (Fin 1)),
             (''joint_limits.foo_joint.k_position'', PDouble (Fin 10)),
             (''joint_limits.foo_joint.k_velocity'', PDouble (Fin 10))]"

section \<open>Basic facts\<close>

lemma and_then_Inr [simp]: "and_then (Inr x) f = f x"
  by (simp add: and_then_def)

lemma and_then_Inl [simp]: "and_then (Inl e) f = Inl e"
  by (simp add: and_then_def)

lemma and_then_eq_Inr: "and_then m f = Inr y \<longleftrightarrow> (\<exists>x. m = Inr x \<and> f x = Inr y)"
  by (cases m) simp_all

lemma get_value_Some [simp]: "get_value (Some j) = Inr (handle_value j)"
  by (simp add: get_value_def)

lemma get_value_None [simp]: "get_value None = Inl NullPointerDereference"
  by (simp add: get_value_def)

lemma set_value_Some [simp]: "set_value (Some j) v = Inr (Some (j\<lparr>handle_value := v\<rparr>))"
  by (simp add: set_value_def)

lemma set_value_None [simp]: "set_value None v = Inl NullPointerDereference"
  by (simp add: set_value_def)

lemma assert_True [simp]: "assert True = Inr ()"
  by (simp add: assert_def)

lemma assert_False [simp]: "assert False = Inl AssertionFailed"
  by (simp add: assert_def)

lemma clamp_eq:
  "clamp v lo hi = (if hi < lo then Inl AssertionFailed else Inr (clamp_value v lo hi))"
  by (simp add: clamp_def assert_def)

subsection \<open>Arithmetic and comparisons of doubles\<close>

lemma Fin_minus [simp]: "Fin x - Fin y = Fin (x - y)"
  by (simp add: minus_double_def)

lemma plus_NaN_right [simp]: "a + NaN = NaN"
  by (cases a) simp_all

lemma minus_NaN_right [simp]: "a - NaN = NaN"
  by (simp add: minus_double_def)

lemma minus_NaN_left [simp]: "NaN - a = NaN"
  by (simp add: minus_double_def)

lemma not_less_NaN_right [simp]: "\<not> a < NaN"
  by (cases a) simp_all

lemma std_max_NaN [simp]: "std_max NaN b = NaN"
  by (simp add: std_max_def)

lemma std_min_NaN [simp]: "std_min NaN b = NaN"
  by (simp add: std_min_def)

lemma clamp_value_NaN_bounds [simp]: "clamp_value v NaN NaN = v"
  by (simp add: clamp_value_def)

lemma seconds_one [simp]: "seconds 1000000000 = Fin 1"
  by (simp add: seconds_def)

lemma clamp_value_in_range:
  assumes "\<not> hi < lo" "\<not> isnan v" "\<not> isnan lo" "\<not> isnan hi"
  shows "lo \<le> clamp_value v lo hi \<and> clamp_value v lo hi \<le> hi"
  using assms by (cases v; cases lo; cases hi) (auto simp: clamp_value_def)

lemma clamp_value_inside:
  "\<not> v < lo \<Longrightarrow> \<not> hi < v \<Longrightarrow> clamp_value v lo hi = v"
  by (simp add: clamp_value_def)



section \<open>Properties of the limit handles\<close>

subsection \<open>Position saturation\<close>

lemma PositionSat_enforce_frame:
  assumes "PositionJointSaturationHandle_enforceLimits h period = Inr h'"
  shows "limits h' = limits h \<and> min_pos_limit h' = min_pos_limit h
         \<and> max_pos_limit h' = max_pos_limit h"
  using assms
  unfolding PositionJointSaturationHandle_enforceLimits_def
  by (auto simp: and_then_eq_Inr seed_prev_pos_def case_prod_beta split: if_splits)

lemma PositionSat_step_frame:
  assumes "step PositionJointSaturationHandle_enforceLimits h ev = Inr h'"
  shows "limits h' = limits h \<and> min_pos_limit h' = min_pos_limit h
         \<and> max_pos_limit h' = max_pos_limit h"
  using assms PositionSat_enforce_frame by (cases ev) (auto simp: reset_def)

lemma PositionSat_run_frame:
  "run PositionJointSaturationHandle_enforceLimits h evs = Inr h' \<Longrightarrow>
   limits h' = limits h \<and> min_pos_limit h' = min_pos_limit h
   \<and> max_pos_limit h' = max_pos_limit h"
proof (induction evs arbitrary: h)
  case Nil
  then show ?case by simp
next
  case (Cons ev evs)
  then obtain h1 where s: "step PositionJointSaturationHandle_enforceLimits h ev = Inr h1"
    and r: "run PositionJointSaturationHandle_enforceLimits h1 evs = Inr h'"
    by (auto simp: and_then_eq_Inr)
  from Cons.IH[OF r] PositionSat_step_frame[OF s] show ?case by simp
qed

text \<open>
  Claim C2. A \<open>PositionJointSaturationHandle\<close> built by its constructor from limits with
  position and velocity limits present, in any state it can reach, with a cached position
  that is no longer the NaN sentinel: \<open>enforceLimits\<close> computes the interval
  \<open>[max(prev_pos - max_velocity * dt, min_position), min(prev_pos + max_velocity * dt,
  max_position)]\<close>, passes the command through \<open>clamp\<close> with it, writes the result to the
  command handle and caches that same value as \<open>prev_pos\<close>; the position handle is not
  read. The call fails only where the assertion of \<open>clamp\<close> does (an empty interval).
  The written value lies in the interval, and is the command itself when the command
  already lies in it.
\<close>

theorem position_saturation_clamps:
  assumes reach: "run PositionJointSaturationHandle_enforceLimits
                    (PositionJointSaturationHandle_init jposh0 jcmdh0 jl) evs = Inr h"
    and lims: "has_position_limits jl" "has_velocity_limits jl"
    and init: "\<not> isnan (prev_pos h)"
    and cmd: "jcmdh h = Some c"
  shows "let lo = std_max (prev_pos h - max_velocity jl * seconds period) (min_position jl);
             hi = std_min (prev_pos h + max_velocity jl * seconds period) (max_position jl);
             written = clamp_value (handle_value c) lo hi
         in PositionJointSaturationHandle_enforceLimits h period =
              (if hi < lo then Inl AssertionFailed
               else Inr (h\<lparr>jcmdh := Some (c\<lparr>handle_value := written\<rparr>), prev_pos := written\<rparr>))
            \<and> (\<not> hi < lo \<and> \<not> isnan (handle_value c) \<and> \<not> isnan lo \<and> \<not> isnan hi
                 \<longrightarrow> lo \<le> written \<and> written \<le> hi)
            \<and> (\<not> handle_value c < lo \<and> \<not> hi < handle_value c \<longrightarrow> written = handle_value c)"
proof -
  from PositionSat_run_frame[OF reach]
  have inv: "limits h = jl" "min_pos_limit h = min_position jl" "max_pos_limit h = max_position jl"
    using lims by (simp_all add: PositionJointSaturationHandle_init_def)
  have "PositionJointSaturationHandle_enforceLimits h period =
     (let lo = std_max (prev_pos h - max_velocity jl * seconds period) (min_position jl);
          hi = std_min (prev_pos h + max_velocity jl * seconds period) (max_position jl);
          written = clamp_value (handle_value c) lo hi
      in if hi < lo then Inl AssertionFailed
         else Inr (h\<lparr>jcmdh := Some (c\<lparr>handle_value := written\<rparr>), prev_pos := written\<rparr>))"
    unfolding PositionJointSaturationHandle_enforceLimits_def
    using init cmd lims inv
    by (simp add: seed_prev_pos_def PositionJointSaturationHandle_bounds_def clamp_eq Let_def)
  then show ?thesis
    using clamp_value_in_range clamp_value_inside by (simp add: Let_def)
qed

text \<open>The scenario of the claim: limits \<open>[-1, 1]\<close>, \<open>max_velocity = 2\<close>, \<open>prev_pos = 0\<close>,
  a period of one second and the command \<open>5\<close>; the written value is \<open>1\<close>.\<close>

theorem position_saturation_clamps_witness:
  "run PositionJointSaturationHandle_enforceLimits
     (PositionJointSaturationHandle_init (joint (Fin 0)) (joint (Fin 0)) position_scenario_limits)
     [Enforce 1000000000, SetCommand (Fin 5)] = Inr position_scenario_handle
   \<and> has_position_limits position_scenario_limits
   \<and> has_velocity_limits position_scenario_limits
   \<and> \<not> isnan (prev_pos position_scenario_handle)
   \<and> jcmdh position_scenario_handle = joint (Fin 5)
   \<and> PositionJointSaturationHandle_enforceLimits position_scenario_handle 1000000000 =
       Inr (position_scenario_handle\<lparr>jcmdh := joint (Fin 1), prev_pos := Fin 1\<rparr>)"
proof -
  have r: "run PositionJointSaturationHandle_enforceLimits
     (PositionJointSaturationHandle_init (joint (Fin 0)) (joint (Fin 0)) position_scenario_limits)
     [Enforce 1000000000, SetCommand (Fin 5)] = Inr position_scenario_handle"
    by (simp add: PositionJointSaturationHandle_init_def PositionJointSaturationHandle_enforceLimits_def
        seed_prev_pos_def PositionJointSaturationHandle_bounds_def position_scenario_limits_def
        position_scenario_handle_def joint_def quiet_NaN_def clamp_eq clamp_value_def
        std_max_def std_min_def write_handle_def)
  have l: "has_position_limits position_scenario_limits" "has_velocity_limits position_scenario_limits"
    by (simp_all add: position_scenario_limits_def)
  have i: "\<not> isnan (prev_pos position_scenario_handle)"
    by (simp add: position_scenario_handle_def)
  have c: "jcmdh position_scenario_handle = Some \<lparr>handle_name = ''foo_joint'', handle_value = Fin 5\<rparr>"
    by (simp add: position_scenario_handle_def joint_def)
  from position_saturation_clamps[OF r l i c, of 1000000000] r l i c
  show ?thesis
    by (simp add: position_scenario_limits_def position_scenario_handle_def joint_def
        clamp_value_def std_max_def std_min_def Let_def)
qed

subsection \<open>Velocity saturation\<close>









subsection \<open>Construction\<close>

lemma is_configuration_error_simps [simp]:
  "is_configuration_error (Inl (no_velocity_limits h))"
  "is_configuration_error (Inl (no_efforts_limits h))"
  "is_configuration_error (Inl (no_effort_limits h))"
  "\<not> is_configuration_error (Inr x)"
  by (simp_all add: is_configuration_error_def no_velocity_limits_def no_efforts_limits_def
      no_effort_limits_def)

text \<open>
  Claim C5. The constructors of the Position-Soft and Velocity-Saturation handles fail
  exactly when \<open>has_velocity_limits\<close> is false, those of the two effort handles exactly
  when \<open>has_velocity_limits\<close> or \<open>has_effort_limits\<close> is false; every failure is the
  configuration error \<open>JointLimitsInterfaceException\<close>, and the result is then the error
  and no handle. No other field of the limits decides whether construction fails, and
  the constructor of the Velocity-Soft handle never fails (that of the Position-Saturation
  handle has no failing path at all: its model returns the handle itself).
\<close>

theorem construction_requires_limits:
  "(is_configuration_error (PositionJointSoftLimitsHandle_init jposh0 jcmdh0 jl sl)
      = (\<not> has_velocity_limits jl)
    \<and> isl (PositionJointSoftLimitsHandle_init jposh0 jcmdh0 jl sl)
      = (\<not> has_velocity_limits jl))
   \<and> (is_configuration_error (EffortJointSaturationHandle_init4 jposh0 jvelh0 jcmdh0 jl)
      = (\<not> has_velocity_limits jl \<or> \<not> has_effort_limits jl)
    \<and> isl (EffortJointSaturationHandle_init4 jposh0 jvelh0 jcmdh0 jl)
      = (\<not> has_velocity_limits jl \<or> \<not> has_effort_limits jl))
   \<and> (is_configuration_error (EffortJointSaturationHandle_init3 jposh0 jcmdh0 jl)
      = (\<not> has_velocity_limits jl \<or> \<not> has_effort_limits jl)
    \<and> isl (EffortJointSaturationHandle_init3 jposh0 jcmdh0 jl)
      = (\<not> has_velocity_limits jl \<or> \<not> has_effort_limits jl))
   \<and> (is_configuration_error (EffortJointSoftLimitsHandle_init4 jposh0 jvelh0 jcmdh0 jl sl)
      = (\<not> has_velocity_limits jl \<or> \<not> has_effort_limits jl)
    \<and> isl (EffortJointSoftLimitsHandle_init4 jposh0 jvelh0 jcmdh0 jl sl)
      = (\<not> has_velocity_limits jl \<or> \<not> has_effort_limits jl))
   \<and> (is_configuration_error (EffortJointSoftLimitsHandle_init3 jposh0 jcmdh0 jl sl)
      = (\<not> has_velocity_limits jl \<or> \<not> has_effort_limits jl)
    \<and> isl (EffortJointSoftLimitsHandle_init3 jposh0 jcmdh0 jl sl)
      = (\<not> has_velocity_limits jl \<or> \<not> has_effort_limits jl))
   \<and> (is_configuration_error (VelocityJointSaturationHandle_init3 jvelh0 jcmdh0 jl)
      = (\<not> has_velocity_limits jl)
    \<and> isl (VelocityJointSaturationHandle_init3 jvelh0 jcmdh0 jl)
      = (\<not> has_velocity_limits jl))
   \<and> (is_configuration_error (VelocityJointSaturationHandle_init2 jcmdh0 jl)
      = (\<not> has_velocity_limits jl)
    \<and> isl (VelocityJointSaturationHandle_init2 jcmdh0 jl)
      = (\<not> has_velocity_limits jl))
   \<and> \<not> isl (VelocityJointSoftLimitsHandle_init jposh0 jvelh0 jcmdh0 jl sl)"
  by (simp add: PositionJointSoftLimitsHandle_init_def EffortJointSaturationHandle_init4_def
      VelocityJointSoftLimitsHandle_init_def
      EffortJointSaturationHandle_init3_def EffortJointSoftLimitsHandle_init4_def
      EffortJointSoftLimitsHandle_init3_def VelocityJointSaturationHandle_init3_def
      VelocityJointSaturationHandle_init2_def Let_def)

text \<open>The scenario of the spec: an Effort Saturation handle from limits without velocity
  limits is refused; a Position-Soft handle from limits with velocity limits is built.\<close>

theorem construction_requires_limits_witness:
  "\<not> has_velocity_limits no_velocity_scenario_limits
   \<and> is_configuration_error
       (EffortJointSaturationHandle_init4 (joint (Fin 0)) (joint (Fin 0)) (joint (Fin 0))
          no_velocity_scenario_limits)
   \<and> isl (EffortJointSaturationHandle_init4 (joint (Fin 0)) (joint (Fin 0)) (joint (Fin 0))
          no_velocity_scenario_limits)
   \<and> has_velocity_limits position_scenario_limits
   \<and> \<not> isl (PositionJointSoftLimitsHandle_init (joint (Fin 0)) (joint (Fin 0))
          position_scenario_limits scenario_soft_limits)"
  using construction_requires_limits
    [of "joint (Fin 0)" "joint (Fin 0)" no_velocity_scenario_limits scenario_soft_limits
        "joint (Fin 0)"]
    construction_requires_limits
    [of "joint (Fin 0)" "joint (Fin 0)" position_scenario_limits scenario_soft_limits
        "joint (Fin 0)"]
  by (simp add: no_velocity_scenario_limits_def position_scenario_limits_def)

text \<open>
  Claim C6. From limits with \<open>has_velocity_limits\<close> false the constructor of
  \<open>VelocityJointSoftLimitsHandle\<close> succeeds, and the velocity cap \<open>max_vel_limit\<close> of the
  handle is \<open>std::numeric_limits<double>::max()\<close>, the largest finite double; both
  constructors of \<open>VelocityJointSaturationHandle\<close> fail with the configuration error on
  the same limits.
\<close>

theorem velocity_soft_limits_constructs_without_velocity_limits:
  assumes "\<not> has_velocity_limits jl"
  shows "VelocityJointSoftLimitsHandle_init jposh0 jvelh0 jcmdh0 jl sl =
           Inr \<lparr>jposh = jposh0, jvelh = jvelh0, jcmdh = jcmdh0, limits = jl,
                prev_pos = NaN, prev_vel = Fin 0, soft_limits = sl,
                max_vel_limit = numeric_limits_max\<rparr>
         \<and> isfinite numeric_limits_max
         \<and> numeric_limits_max = Fin (2 ^ 1024 - 2 ^ 971)
         \<and> is_configuration_error (VelocityJointSaturationHandle_init3 jvelh0 jcmdh0 jl)
         \<and> is_configuration_error (VelocityJointSaturationHandle_init2 jcmdh0 jl)"
  using assms
  by (simp add: VelocityJointSoftLimitsHandle_init_def VelocityJointSaturationHandle_init3_def
      VelocityJointSaturationHandle_init2_def numeric_limits_max_def quiet_NaN_def Let_def)

text \<open>Limits without velocity limits: the soft-limits handle is built with the cap
  \<open>numeric_limits_max\<close>, the saturation handle is refused.\<close>

theorem velocity_soft_limits_constructs_without_velocity_limits_witness:
  "\<not> has_velocity_limits no_velocity_scenario_limits
   \<and> VelocityJointSoftLimitsHandle_init (joint (Fin 0)) None (joint (Fin 0))
        no_velocity_scenario_limits scenario_soft_limits =
        Inr \<lparr>jposh = joint (Fin 0), jvelh = None, jcmdh = joint (Fin 0),
             limits = no_velocity_scenario_limits,
             prev_pos = NaN, prev_vel = Fin 0, soft_limits = scenario_soft_limits,
             max_vel_limit = numeric_limits_max\<rparr>
   \<and> is_configuration_error
        (VelocityJointSaturationHandle_init2 (joint (Fin 0)) no_velocity_scenario_limits)"
  using velocity_soft_limits_constructs_without_velocity_limits
    [of no_velocity_scenario_limits "joint (Fin 0)" None "joint (Fin 0)" scenario_soft_limits]
  by (simp add: no_velocity_scenario_limits_def)

subsection \<open>Effort saturation without a velocity handle\<close>

lemma run_invariant:
  assumes enforce: "\<And>h period h'. P h \<Longrightarrow> enforce h period = Inr h' \<Longrightarrow> P h'"
    and reset: "\<And>h. P h \<Longrightarrow> P (reset h)"
    and pos: "\<And>h v. P h \<Longrightarrow> P (h\<lparr>jposh := write_handle (jposh h) v\<rparr>)"
    and vel: "\<And>h v. P h \<Longrightarrow> P (h\<lparr>jvelh := write_handle (jvelh h) v\<rparr>)"
    and cmd: "\<And>h v. P h \<Longrightarrow> P (h\<lparr>jcmdh := write_handle (jcmdh h) v\<rparr>)"
  shows "P h \<Longrightarrow> run enforce h evs = Inr h' \<Longrightarrow> P h'"
proof (induction evs arbitrary: h)
  case Nil
  then show ?case by simp
next
  case (Cons ev evs)
  from Cons.prems(2) obtain h1 where s: "step enforce h ev = Inr h1"
    and r: "run enforce h1 evs = Inr h'"
    by (auto simp: and_then_eq_Inr)
  have "P h1"
    using s Cons.prems(1) enforce reset pos vel cmd by (cases ev) auto
  with r show ?case by (rule Cons.IH[rotated])
qed

lemma EffortSat_enforce_frame:
  assumes "EffortJointSaturationHandle_enforceLimits h period = Inr h'"
  shows "jvelh h' = jvelh h \<and> prev_pos h' = prev_pos h"
  using assms
  unfolding EffortJointSaturationHandle_enforceLimits_def
  by (auto simp: and_then_eq_Inr case_prod_beta)

lemma EffortSat_run_no_velocity:
  assumes "run EffortJointSaturationHandle_enforceLimits h0 evs = Inr h"
    and "jvelh h0 = None \<and> isnan (prev_pos h0)"
  shows "jvelh h = None \<and> isnan (prev_pos h)"
  using assms(2,1)
  by (rule run_invariant[where P = "\<lambda>h. jvelh h = None \<and> isnan (prev_pos h)", rotated -2])
     (auto simp: reset_def quiet_NaN_def write_handle_def dest: EffortSat_enforce_frame)

lemma get_velocity_unseeded:
  assumes "jvelh h = None" "isnan (prev_pos h)" "jposh h = Some p"
  shows "get_velocity h period = Inr NaN"
  using assms by (cases "prev_pos h") (simp_all add: get_velocity_def)

text \<open>
  Claim C9. An \<open>EffortJointSaturationHandle\<close> built without a velocity handle (by the
  three-argument constructor, which is the four-argument one with a null velocity
  handle), in any state a run of writes, \<open>enforceLimits\<close> and \<open>reset\<close> calls can
  reach: the velocity handle is still null and \<open>prev_pos\<close> is still NaN, so \<open>get_velocity\<close>
  returns NaN, both comparisons of it with \<open>\<plusminus>max_velocity\<close> are false, and the effort
  window of the cycle is the one the position check leaves: the velocity check never
  changes it.
\<close>

theorem effort_saturation_without_velocity_handle:
  assumes ctor: "EffortJointSaturationHandle_init4 jh None jcmdh0 jl = Inr h0"
    and reach: "run EffortJointSaturationHandle_enforceLimits h0 evs = Inr h"
    and pos: "jposh h = Some p"
  shows "EffortJointSaturationHandle_init3 jh jcmdh0 jl = Inr h0
         \<and> jvelh h = None \<and> isnan (prev_pos h)
         \<and> get_velocity h period = Inr NaN
         \<and> \<not> NaN < - max_velocity (limits h) \<and> \<not> NaN > max_velocity (limits h)
         \<and> EffortJointSaturationHandle_bounds h period =
             EffortJointSaturationHandle_position_check h"
proof -
  from ctor have "jvelh h0 = None \<and> isnan (prev_pos h0)"
    by (auto simp: EffortJointSaturationHandle_init4_def
        JointSaturationLimitHandle_init4_def quiet_NaN_def Let_def split: if_splits)
  from EffortSat_run_no_velocity[OF reach this]
  have inv: "jvelh h = None" "isnan (prev_pos h)" by simp_all
  have v: "get_velocity h period = Inr NaN"
    using inv pos by (rule get_velocity_unseeded)
  have "EffortJointSaturationHandle_bounds h period = EffortJointSaturationHandle_position_check h"
    unfolding EffortJointSaturationHandle_bounds_def
    by (cases "EffortJointSaturationHandle_position_check h") (simp_all add: v case_prod_beta)
  with inv v ctor show ?thesis by (simp add: EffortJointSaturationHandle_init3_def)
qed

text \<open>A run in which the measured position moves from \<open>-1\<close> to \<open>1\<close> within a tenth of a
  second, four times \<open>max_velocity\<close>: the estimate is NaN and the window stays
  \<open>[-20, 20]\<close>.\<close>

theorem effort_saturation_without_velocity_handle_witness:
  "EffortJointSaturationHandle_init3 (joint (Fin (- 1))) (joint (Fin 15)) effort_scenario_limits
     = Inr (JointSaturationLimitHandle_init4 (joint (Fin (- 1))) None (joint (Fin 15))
              effort_scenario_limits)
   \<and> run EffortJointSaturationHandle_enforceLimits
        (JointSaturationLimitHandle_init4 (joint (Fin (- 1))) None (joint (Fin 15))
           effort_scenario_limits)
        [Enforce 100000000, SetPosition (Fin 1)] = Inr effort_no_velocity_handle
   \<and> jposh effort_no_velocity_handle = joint (Fin 1)
   \<and> isnan (prev_pos effort_no_velocity_handle)
   \<and> get_velocity effort_no_velocity_handle 100000000 = Inr NaN
   \<and> EffortJointSaturationHandle_bounds effort_no_velocity_handle 100000000
       = Inr (Fin (- 20), Fin 20)"
proof -
  have c: "EffortJointSaturationHandle_init4 (joint (Fin (- 1))) None (joint (Fin 15))
             effort_scenario_limits
     = Inr (JointSaturationLimitHandle_init4 (joint (Fin (- 1))) None (joint (Fin 15))
              effort_scenario_limits)"
    by (simp add: EffortJointSaturationHandle_init4_def effort_scenario_limits_def Let_def)
  have r: "run EffortJointSaturationHandle_enforceLimits
        (JointSaturationLimitHandle_init4 (joint (Fin (- 1))) None (joint (Fin 15))
           effort_scenario_limits)
        [Enforce 100000000, SetPosition (Fin 1)] = Inr effort_no_velocity_handle"
    by (simp add: JointSaturationLimitHandle_init4_def EffortJointSaturationHandle_enforceLimits_def
        EffortJointSaturationHandle_bounds_def EffortJointSaturationHandle_position_check_def
        get_velocity_def effort_scenario_limits_def effort_no_velocity_handle_def joint_def
        quiet_NaN_def clamp_eq clamp_value_def write_handle_def Let_def)
  have p: "jposh effort_no_velocity_handle
             = Some \<lparr>handle_name = ''foo_joint'', handle_value = Fin 1\<rparr>"
    by (simp add: effort_no_velocity_handle_def joint_def)
  from effort_saturation_without_velocity_handle[OF c r p, of 100000000] r p
  show ?thesis
    by (simp add: EffortJointSaturationHandle_position_check_def effort_no_velocity_handle_def
        effort_scenario_limits_def joint_def Let_def)
qed

subsection \<open>Velocity soft limits without a velocity handle\<close>

lemma VelocitySoft_enforce_frame:
  assumes "VelocityJointSoftLimitsHandle_enforceLimits h period = Inr h'"
  shows "jvelh h' = jvelh h \<and> prev_pos h' = prev_pos h \<and> limits h' = limits h"
  using assms
  unfolding VelocityJointSoftLimitsHandle_enforceLimits_def
  by (auto simp: and_then_eq_Inr case_prod_beta)

lemma VelocitySoft_run_no_velocity:
  assumes "run VelocityJointSoftLimitsHandle_enforceLimits h0 evs = Inr h"
    and "jvelh h0 = None \<and> isnan (prev_pos h0) \<and> limits h0 = jl"
  shows "jvelh h = None \<and> isnan (prev_pos h) \<and> limits h = jl"
  using assms(2,1)
  by (rule run_invariant
        [where P = "\<lambda>h. jvelh h = None \<and> isnan (prev_pos h) \<and> limits h = jl", rotated -2])
     (auto simp: reset_def quiet_NaN_def write_handle_def dest: VelocitySoft_enforce_frame)

lemma soft_velocity_bounds_eq:
  "soft_velocity_bounds sl pos max_vel =
     (if max_vel < - max_vel then Inl AssertionFailed
      else Inr (clamp_value (- k_position sl * (pos - soft_min_position sl)) (- max_vel) max_vel,
                clamp_value (- k_position sl * (pos - soft_max_position sl)) (- max_vel) max_vel))"
  by (simp add: soft_velocity_bounds_def clamp_eq)

text \<open>
  Claim C10. A \<open>VelocityJointSoftLimitsHandle\<close> built without a velocity handle from
  limits with acceleration limits present, in any state a run of writes, \<open>enforceLimits\<close>
  and \<open>reset\<close> calls can reach: \<open>prev_pos\<close> is still NaN, the estimated velocity is NaN,
  the tightened bounds \<open>min_vel\<close> and \<open>max_vel\<close> are both NaN, and \<open>enforceLimits\<close> writes
  the command back unchanged, whatever its value. (With position limits present and a
  velocity cap below its own negation, the assertion of \<open>clamp\<close> fails before that.)
\<close>

theorem velocity_soft_limits_without_velocity_handle:
  assumes ctor: "VelocityJointSoftLimitsHandle_init jposh0 None jcmdh0 jl sl = Inr h0"
    and acc: "has_acceleration_limits jl"
    and reach: "run VelocityJointSoftLimitsHandle_enforceLimits h0 evs = Inr h"
    and pos: "jposh h = Some p"
    and cmd: "jcmdh h = Some c"
  shows "isnan (prev_pos h)
         \<and> get_velocity h period = Inr NaN
         \<and> VelocityJointSoftLimitsHandle_bounds h period =
             (if has_position_limits jl \<and> max_vel_limit h < - max_vel_limit h
              then Inl AssertionFailed else Inr (NaN, NaN))
         \<and> VelocityJointSoftLimitsHandle_enforceLimits h period =
             (if has_position_limits jl \<and> max_vel_limit h < - max_vel_limit h
              then Inl AssertionFailed else Inr h)"
proof -
  from ctor have "jvelh h0 = None \<and> isnan (prev_pos h0) \<and> limits h0 = jl"
    by (auto simp: VelocityJointSoftLimitsHandle_init_def quiet_NaN_def)
  from VelocitySoft_run_no_velocity[OF reach this]
  have inv: "jvelh h = None" "isnan (prev_pos h)" "limits h = jl" by simp_all
  have v: "get_velocity h period = Inr NaN"
    using inv(1,2) pos by (rule get_velocity_unseeded)
  have b: "VelocityJointSoftLimitsHandle_bounds h period =
             (if has_position_limits jl \<and> max_vel_limit h < - max_vel_limit h
              then Inl AssertionFailed else Inr (NaN, NaN))"
    unfolding VelocityJointSoftLimitsHandle_bounds_def
    using inv(3) acc pos by (simp add: v soft_velocity_bounds_eq Let_def)
  have "VelocityJointSoftLimitsHandle_enforceLimits h period =
             (if has_position_limits jl \<and> max_vel_limit h < - max_vel_limit h
              then Inl AssertionFailed else Inr h)"
    unfolding VelocityJointSoftLimitsHandle_enforceLimits_def
    using cmd by (simp add: b clamp_eq)
  with inv v b show ?thesis by simp
qed

text \<open>With \<open>max_velocity = 5\<close> declared present, the command \<open>1000\<close> is written back as
  it is.\<close>

theorem velocity_soft_limits_without_velocity_handle_witness:
  "VelocityJointSoftLimitsHandle_init (joint (Fin 0)) None (joint (Fin 0))
     effort_scenario_limits scenario_soft_limits
     = Inr (velocity_soft_no_velocity_handle\<lparr>jcmdh := joint (Fin 0)\<rparr>)
   \<and> has_acceleration_limits effort_scenario_limits
   \<and> run VelocityJointSoftLimitsHandle_enforceLimits
        (velocity_soft_no_velocity_handle\<lparr>jcmdh := joint (Fin 0)\<rparr>)
        [Enforce 1000000000, SetCommand (Fin 1000)] = Inr velocity_soft_no_velocity_handle
   \<and> jposh velocity_soft_no_velocity_handle = joint (Fin 0)
   \<and> jcmdh velocity_soft_no_velocity_handle = joint (Fin 1000)
   \<and> max_velocity (limits velocity_soft_no_velocity_handle) = Fin 5
   \<and> VelocityJointSoftLimitsHandle_bounds velocity_soft_no_velocity_handle 1000000000
       = Inr (NaN, NaN)
   \<and> VelocityJointSoftLimitsHandle_enforceLimits velocity_soft_no_velocity_handle 1000000000
       = Inr velocity_soft_no_velocity_handle"
proof -
  have c: "VelocityJointSoftLimitsHandle_init (joint (Fin 0)) None (joint (Fin 0))
     effort_scenario_limits scenario_soft_limits
     = Inr (velocity_soft_no_velocity_handle\<lparr>jcmdh := joint (Fin 0)\<rparr>)"
    by (simp add: VelocityJointSoftLimitsHandle_init_def velocity_soft_no_velocity_handle_def
        effort_scenario_limits_def quiet_NaN_def)
  have a: "has_acceleration_limits effort_scenario_limits"
    by (simp add: effort_scenario_limits_def)
  have r: "run VelocityJointSoftLimitsHandle_enforceLimits
        (velocity_soft_no_velocity_handle\<lparr>jcmdh := joint (Fin 0)\<rparr>)
        [Enforce 1000000000, SetCommand (Fin 1000)] = Inr velocity_soft_no_velocity_handle"
    by (simp add: VelocityJointSoftLimitsHandle_enforceLimits_def
        VelocityJointSoftLimitsHandle_bounds_def soft_velocity_bounds_eq get_velocity_def
        velocity_soft_no_velocity_handle_def effort_scenario_limits_def scenario_soft_limits_def
        joint_def clamp_eq clamp_value_def std_max_def std_min_def write_handle_def Let_def)
  have p: "jposh velocity_soft_no_velocity_handle
             = Some \<lparr>handle_name = ''foo_joint'', handle_value = Fin 0\<rparr>"
    by (simp add: velocity_soft_no_velocity_handle_def joint_def)
  have m: "jcmdh velocity_soft_no_velocity_handle
             = Some \<lparr>handle_name = ''foo_joint'', handle_value = Fin 1000\<rparr>"
    by (simp add: velocity_soft_no_velocity_handle_def joint_def)
  from velocity_soft_limits_without_velocity_handle[OF c a r p m, of 1000000000] c a r p m
  show ?thesis
    by (simp add: velocity_soft_no_velocity_handle_def effort_scenario_limits_def joint_def)
qed

subsection \<open>Effort saturation with a position violation\<close>

lemma EffortSat_enforce_eq:
  assumes "EffortJointSaturationHandle_bounds h period = Inr (lo, hi)" "jcmdh h = Some c"
  shows "EffortJointSaturationHandle_enforceLimits h period =
           (if hi < lo then Inl AssertionFailed
            else Inr (h\<lparr>jcmdh := Some (c\<lparr>handle_value := clamp_value (handle_value c) lo hi\<rparr>)\<rparr>))"
  using assms by (simp add: EffortJointSaturationHandle_enforceLimits_def clamp_eq)

text \<open>
  Claim C4, as amended. An \<open>EffortJointSaturationHandle\<close> with position limits present,
  position and command handles bound, \<open>vel\<close> the velocity \<open>get_velocity\<close> returns. If the
  measured position exceeds \<open>max_position\<close> (and is not below \<open>min_position\<close>), the
  position check sets the upper bound of the effort window to \<open>0\<close> and leaves the lower
  bound at \<open>-max_effort\<close>; the window of the cycle has the upper bound \<open>0\<close>, and its lower
  bound is \<open>-max_effort\<close> unless \<open>vel < -max_velocity\<close>, where the velocity check sets
  it to \<open>0\<close> as well. Symmetrically, if the measured position is below \<open>min_position\<close>,
  the lower bound is \<open>0\<close> and the upper bound is \<open>max_effort\<close> unless the velocity check
  zeroes it. The command is passed through \<open>clamp\<close> with that window and written back.
\<close>

theorem effort_saturation_position_violation:
  assumes lims: "has_position_limits (limits h)"
    and pos: "jposh h = Some p"
    and vel: "get_velocity h period = Inr vel"
    and cmd: "jcmdh h = Some c"
  shows "(handle_value p > max_position (limits h)
            \<and> \<not> handle_value p < min_position (limits h) \<longrightarrow>
          (let lo = (if vel < - max_velocity (limits h) then Fin 0 else - max_effort (limits h))
           in EffortJointSaturationHandle_position_check h = Inr (- max_effort (limits h), Fin 0)
              \<and> EffortJointSaturationHandle_bounds h period = Inr (lo, Fin 0)
              \<and> EffortJointSaturationHandle_enforceLimits h period =
                  (if Fin 0 < lo then Inl AssertionFailed
                   else Inr (h\<lparr>jcmdh := Some (c\<lparr>handle_value :=
                                  clamp_value (handle_value c) lo (Fin 0)\<rparr>)\<rparr>))))
         \<and> (handle_value p < min_position (limits h) \<longrightarrow>
          (let hi = (if \<not> vel < - max_velocity (limits h) \<and> vel > max_velocity (limits h)
                     then Fin 0 else max_effort (limits h))
           in EffortJointSaturationHandle_position_check h = Inr (Fin 0, max_effort (limits h))
              \<and> EffortJointSaturationHandle_bounds h period = Inr (Fin 0, hi)
              \<and> EffortJointSaturationHandle_enforceLimits h period =
                  (if hi < Fin 0 then Inl AssertionFailed
                   else Inr (h\<lparr>jcmdh := Some (c\<lparr>handle_value :=
                                  clamp_value (handle_value c) (Fin 0) hi\<rparr>)\<rparr>))))"
proof (intro conjI impI)
  assume high: "handle_value p > max_position (limits h) \<and> \<not> handle_value p < min_position (limits h)"
  define lo where "lo = (if vel < - max_velocity (limits h) then Fin 0 else - max_effort (limits h))"
  have pc: "EffortJointSaturationHandle_position_check h = Inr (- max_effort (limits h), Fin 0)"
    using lims pos high by (simp add: EffortJointSaturationHandle_position_check_def Let_def)
  have b: "EffortJointSaturationHandle_bounds h period = Inr (lo, Fin 0)"
    by (simp add: EffortJointSaturationHandle_bounds_def pc vel lo_def)
  from pc b EffortSat_enforce_eq[OF b cmd]
  show "let lo = (if vel < - max_velocity (limits h) then Fin 0 else - max_effort (limits h))
        in EffortJointSaturationHandle_position_check h = Inr (- max_effort (limits h), Fin 0)
           \<and> EffortJointSaturationHandle_bounds h period = Inr (lo, Fin 0)
           \<and> EffortJointSaturationHandle_enforceLimits h period =
               (if Fin 0 < lo then Inl AssertionFailed
                else Inr (h\<lparr>jcmdh := Some (c\<lparr>handle_value :=
                               clamp_value (handle_value c) lo (Fin 0)\<rparr>)\<rparr>))"
    unfolding Let_def lo_def by simp
next
  assume low: "handle_value p < min_position (limits h)"
  define hi where "hi = (if \<not> vel < - max_velocity (limits h) \<and> vel > max_velocity (limits h)
                     then Fin 0 else max_effort (limits h))"
  have pc: "EffortJointSaturationHandle_position_check h = Inr (Fin 0, max_effort (limits h))"
    using lims pos low by (simp add: EffortJointSaturationHandle_position_check_def Let_def)
  have b: "EffortJointSaturationHandle_bounds h period = Inr (Fin 0, hi)"
    by (simp add: EffortJointSaturationHandle_bounds_def pc vel hi_def)
  from pc b EffortSat_enforce_eq[OF b cmd]
  show "let hi = (if \<not> vel < - max_velocity (limits h) \<and> vel > max_velocity (limits h)
                     then Fin 0 else max_effort (limits h))
           in EffortJointSaturationHandle_position_check h = Inr (Fin 0, max_effort (limits h))
              \<and> EffortJointSaturationHandle_bounds h period = Inr (Fin 0, hi)
              \<and> EffortJointSaturationHandle_enforceLimits h period =
                  (if hi < Fin 0 then Inl AssertionFailed
                   else Inr (h\<lparr>jcmdh := Some (c\<lparr>handle_value :=
                                  clamp_value (handle_value c) (Fin 0) hi\<rparr>)\<rparr>))"
    unfolding Let_def hi_def by simp
qed

text \<open>The scenario of the claim: \<open>max_effort = 20\<close>, \<open>max_velocity = 5\<close>, measured position
  \<open>2\<close> above \<open>max_position = 1\<close>, command \<open>15\<close>; the window is \<open>[-20, 0]\<close> and the written
  value is \<open>0\<close>.\<close>

theorem effort_saturation_position_violation_witness:
  "has_position_limits (limits effort_violation_handle)
   \<and> jposh effort_violation_handle = joint (Fin 2)
   \<and> get_velocity effort_violation_handle 1000000000 = Inr (Fin 0)
   \<and> jcmdh effort_violation_handle = joint (Fin 15)
   \<and> Fin 2 > max_position (limits effort_violation_handle)
   \<and> \<not> Fin 2 < min_position (limits effort_violation_handle)
   \<and> EffortJointSaturationHandle_bounds effort_violation_handle 1000000000
        = Inr (Fin (- 20), Fin 0)
   \<and> EffortJointSaturationHandle_enforceLimits effort_violation_handle 1000000000
        = Inr (effort_violation_handle\<lparr>jcmdh := joint (Fin 0)\<rparr>)"
proof -
  have l: "has_position_limits (limits effort_violation_handle)"
    by (simp add: effort_violation_handle_def effort_scenario_limits_def)
  have p: "jposh effort_violation_handle
             = Some \<lparr>handle_name = ''foo_joint'', handle_value = Fin 2\<rparr>"
    by (simp add: effort_violation_handle_def joint_def)
  have v: "get_velocity effort_violation_handle 1000000000 = Inr (Fin 0)"
    by (simp add: effort_violation_handle_def joint_def get_velocity_def)
  have c: "jcmdh effort_violation_handle
             = Some \<lparr>handle_name = ''foo_joint'', handle_value = Fin 15\<rparr>"
    by (simp add: effort_violation_handle_def joint_def)
  from effort_saturation_position_violation[OF l p v c] l p v c
  show ?thesis
    by (simp add: effort_violation_handle_def effort_scenario_limits_def joint_def
        clamp_value_def Let_def)
qed

text \<open>
  Claim C4 as stated fails: the lower bound is not always left at \<open>-max_effort\<close>. With the
  measured position \<open>2\<close> above \<open>max_position = 1\<close> and the measured velocity \<open>-6\<close> below
  \<open>-max_velocity = -5\<close> (the joint is already moving back), the window is \<open>[0, 0]\<close>, not
  \<open>[-20, 0]\<close>, and the retreating command \<open>-15\<close> is written as \<open>0\<close>.
\<close>

theorem effort_saturation_lower_bound_counterexample:
  "EffortJointSaturationHandle_init4 (joint (Fin 2)) (joint (Fin (- 6))) (joint (Fin (- 15)))
     effort_scenario_limits = Inr effort_retreating_handle
   \<and> has_position_limits (limits effort_retreating_handle)
   \<and> get_value (jposh effort_retreating_handle) = Inr (Fin 2)
   \<and> Fin 2 > max_position (limits effort_retreating_handle)
   \<and> - max_effort (limits effort_retreating_handle) = Fin (- 20)
   \<and> EffortJointSaturationHandle_bounds effort_retreating_handle 1000000000
        = Inr (Fin 0, Fin 0)
   \<and> EffortJointSaturationHandle_enforceLimits effort_retreating_handle 1000000000
        = Inr (effort_retreating_handle\<lparr>jcmdh := joint (Fin 0)\<rparr>)"
  by (simp add: EffortJointSaturationHandle_init4_def JointSaturationLimitHandle_init4_def
      EffortJointSaturationHandle_enforceLimits_def EffortJointSaturationHandle_bounds_def
      EffortJointSaturationHandle_position_check_def get_velocity_def
      effort_retreating_handle_def effort_scenario_limits_def joint_def quiet_NaN_def
      clamp_eq clamp_value_def Let_def)

subsection \<open>Position soft limits at the edge of the soft band\<close>

lemma clamp_value_zero:
  "Fin 0 \<le> m \<Longrightarrow> clamp_value (Fin 0) (- m) m = Fin 0"
  by (cases m) (auto simp: clamp_value_def)

lemma not_less_neg:
  "Fin 0 \<le> m \<Longrightarrow> \<not> m < - m"
  by (cases m) auto

lemma soft_edge_product:
  "isfinite k \<Longrightarrow> isfinite x \<Longrightarrow> - k * (x - x) = Fin 0"
  by (cases k; cases x) auto

lemma plus_zero_times_seconds:
  "isfinite x \<Longrightarrow> x + Fin 0 * seconds period = x"
  by (cases x) (auto simp: seconds_def)

lemma clamp_value_not_below:
  "\<not> hi < lo \<Longrightarrow> \<not> clamp_value v lo hi < lo"
  by (cases v; cases lo; cases hi) (auto simp: clamp_value_def)

lemma std_max_not_below:
  "\<not> std_max a b < a"
  by (cases a; cases b) (auto simp: std_max_def)

lemma not_less_trans_double:
  "\<not> (w::double) < lo \<Longrightarrow> \<not> lo < x \<Longrightarrow> \<not> isnan lo \<Longrightarrow> \<not> w < x"
  by (cases w; cases lo; cases x) auto

text \<open>
  Claim C7, as amended. A \<open>PositionJointSoftLimitsHandle\<close> with position limits present,
  a finite cached position equal to \<open>soft_min_position\<close>, a finite \<open>k_position\<close> and
  \<open>max_velocity \<ge> 0\<close>: \<open>soft_min_vel\<close> is \<open>clamp(0, -max_velocity, max_velocity) = 0\<close>, and
  the lower position bound of the cycle is \<open>max(cached position, min_position)\<close>. It is
  the cached position itself when the cached position is not below the hard
  \<open>min_position\<close>. The command is passed through \<open>clamp\<close> with the interval of the cycle,
  written back and cached; the call fails only where an assertion does (a period that is
  not positive, an empty interval), and the written command is never below the lower
  bound nor below the cached position.
\<close>

theorem position_soft_limits_at_soft_edge:
  assumes lims: "has_position_limits (limits h)"
    and edge: "prev_pos h = soft_min_position (soft_limits h)"
    and fin: "isfinite (prev_pos h)" "isfinite (k_position (soft_limits h))"
    and mv: "Fin 0 \<le> max_velocity (limits h)"
    and cmd: "jcmdh h = Some c"
  shows "let soft_max_vel =
               clamp_value (- k_position (soft_limits h)
                              * (prev_pos h - soft_max_position (soft_limits h)))
                 (- max_velocity (limits h)) (max_velocity (limits h));
             pos_low = std_max (prev_pos h) (min_position (limits h));
             pos_high = std_min (prev_pos h + soft_max_vel * seconds period)
                          (max_position (limits h));
             written = clamp_value (handle_value c) pos_low pos_high
         in clamp_value (Fin 0) (- max_velocity (limits h)) (max_velocity (limits h)) = Fin 0
            \<and> PositionJointSoftLimitsHandle_soft_vel h = Inr (Fin 0, soft_max_vel)
            \<and> PositionJointSoftLimitsHandle_bounds h period = Inr (pos_low, pos_high)
            \<and> (\<not> prev_pos h < min_position (limits h) \<longrightarrow> pos_low = prev_pos h)
            \<and> PositionJointSoftLimitsHandle_enforceLimits h period =
                (if \<not> seconds period > Fin 0 \<or> pos_high < pos_low then Inl AssertionFailed
                 else Inr (h\<lparr>jcmdh := Some (c\<lparr>handle_value := written\<rparr>),
                            prev_pos := written\<rparr>))
            \<and> (\<not> pos_high < pos_low \<longrightarrow>
                  \<not> written < pos_low \<and> \<not> written < prev_pos h)"
proof -
  define soft_max_vel where "soft_max_vel =
               clamp_value (- k_position (soft_limits h)
                              * (prev_pos h - soft_max_position (soft_limits h)))
                 (- max_velocity (limits h)) (max_velocity (limits h))"
  define pos_low where "pos_low = std_max (prev_pos h) (min_position (limits h))"
  define pos_high where "pos_high = std_min (prev_pos h + soft_max_vel * seconds period)
                          (max_position (limits h))"
  define written where "written = clamp_value (handle_value c) pos_low pos_high"
  have z: "clamp_value (Fin 0) (- max_velocity (limits h)) (max_velocity (limits h)) = Fin 0"
    using mv by (rule clamp_value_zero)
  have e: "- k_position (soft_limits h) * (prev_pos h - soft_min_position (soft_limits h)) = Fin 0"
    using fin edge soft_edge_product[of "k_position (soft_limits h)" "prev_pos h"] by simp
  have sv: "PositionJointSoftLimitsHandle_soft_vel h = Inr (Fin 0, soft_max_vel)"
    using lims not_less_neg[OF mv]
    by (simp add: PositionJointSoftLimitsHandle_soft_vel_def soft_velocity_bounds_eq e z
        soft_max_vel_def)
  have b: "PositionJointSoftLimitsHandle_bounds h period = Inr (pos_low, pos_high)"
    using lims fin(1)
    by (simp add: PositionJointSoftLimitsHandle_bounds_def sv plus_zero_times_seconds
        pos_low_def pos_high_def Let_def)
  have eq: "\<not> prev_pos h < min_position (limits h) \<longrightarrow> pos_low = prev_pos h"
    by (simp add: pos_low_def std_max_def)
  have nn: "\<not> isnan (prev_pos h)"
    using fin(1) by (cases "prev_pos h") simp_all
  have en: "PositionJointSoftLimitsHandle_enforceLimits h period =
                (if \<not> seconds period > Fin 0 \<or> pos_high < pos_low then Inl AssertionFailed
                 else Inr (h\<lparr>jcmdh := Some (c\<lparr>handle_value := written\<rparr>),
                            prev_pos := written\<rparr>))"
    unfolding PositionJointSoftLimitsHandle_enforceLimits_def written_def
    using nn cmd
    by (cases "Fin 0 < seconds period") (simp_all add: seed_prev_pos_def b clamp_eq)
  have w: "\<not> written < pos_low \<and> \<not> written < prev_pos h" if ok: "\<not> pos_high < pos_low"
  proof -
    have 1: "\<not> written < pos_low"
      unfolding written_def using ok by (rule clamp_value_not_below)
    have 2: "\<not> pos_low < prev_pos h"
      unfolding pos_low_def by (rule std_max_not_below)
    have "\<not> isnan pos_low"
      using nn by (cases "prev_pos h"; cases "min_position (limits h)")
                  (auto simp: pos_low_def std_max_def)
    with 1 2 have "\<not> written < prev_pos h"
      by (rule not_less_trans_double)
    with 1 show ?thesis by simp
  qed
  from z sv b eq en w show ?thesis
    unfolding Let_def soft_max_vel_def pos_low_def pos_high_def written_def by blast
qed

text \<open>The scenario of the claim: \<open>k_position = 10\<close>, \<open>max_velocity = 2\<close>, hard limits
  \<open>[-1, 1]\<close>, the cached position at \<open>soft_min_position = -0.5\<close>; \<open>soft_min_vel = 0\<close>, the
  lower bound is the cached position and the command \<open>-3\<close> is written as \<open>-0.5\<close>.\<close>

theorem position_soft_limits_at_soft_edge_witness:
  "has_position_limits (limits soft_edge_inside_handle)
   \<and> prev_pos soft_edge_inside_handle = soft_min_position (soft_limits soft_edge_inside_handle)
   \<and> isfinite (prev_pos soft_edge_inside_handle)
   \<and> k_position (soft_limits soft_edge_inside_handle) = Fin 10
   \<and> max_velocity (limits soft_edge_inside_handle) = Fin 2
   \<and> jcmdh soft_edge_inside_handle = joint (Fin (- 3))
   \<and> \<not> prev_pos soft_edge_inside_handle < min_position (limits soft_edge_inside_handle)
   \<and> clamp_value (Fin 0) (- Fin 2) (Fin 2) = Fin 0
   \<and> PositionJointSoftLimitsHandle_soft_vel soft_edge_inside_handle = Inr (Fin 0, Fin 2)
   \<and> PositionJointSoftLimitsHandle_bounds soft_edge_inside_handle 1000000000
        = Inr (prev_pos soft_edge_inside_handle, Fin 1)
   \<and> PositionJointSoftLimitsHandle_enforceLimits soft_edge_inside_handle 1000000000
        = Inr (soft_edge_inside_handle\<lparr>jcmdh := joint (Fin (- 0.5))\<rparr>)"
proof -
  have l: "has_position_limits (limits soft_edge_inside_handle)"
    by (simp add: soft_edge_inside_handle_def position_scenario_limits_def)
  have e: "prev_pos soft_edge_inside_handle
             = soft_min_position (soft_limits soft_edge_inside_handle)"
    by (simp add: soft_edge_inside_handle_def scenario_soft_limits_def)
  have f: "isfinite (prev_pos soft_edge_inside_handle)"
    "isfinite (k_position (soft_limits soft_edge_inside_handle))"
    by (simp_all add: soft_edge_inside_handle_def scenario_soft_limits_def)
  have m: "Fin 0 \<le> max_velocity (limits soft_edge_inside_handle)"
    by (simp add: soft_edge_inside_handle_def position_scenario_limits_def)
  have c: "jcmdh soft_edge_inside_handle
             = Some \<lparr>handle_name = ''foo_joint'', handle_value = Fin (- 3)\<rparr>"
    by (simp add: soft_edge_inside_handle_def joint_def)
  from position_soft_limits_at_soft_edge[OF l e f m c, of 1000000000] l e f m c
  show ?thesis
    by (simp add: soft_edge_inside_handle_def position_scenario_limits_def
        scenario_soft_limits_def joint_def clamp_value_def std_max_def std_min_def Let_def)
qed

text \<open>
  Claim C7 as stated fails where the soft limit lies beyond the hard limit, the case the
  second \<open>std::max\<close> of \<open>enforceLimits\<close> guards against: with hard limits \<open>[0, 1]\<close> and the
  cached position seeded at \<open>soft_min_position = -0.5\<close>, \<open>soft_min_vel\<close> is \<open>0\<close> but the lower
  bound of the cycle is \<open>0\<close>, not the cached position \<open>-0.5\<close>; the command \<open>-0.5\<close>, equal
  to the current position, is written as \<open>0\<close>.
\<close>

theorem position_soft_limits_edge_counterexample:
  "PositionJointSoftLimitsHandle_init (joint (Fin (- 0.5))) (joint (Fin (- 0.5)))
     pathological_limits scenario_soft_limits
     = Inr (soft_edge_handle\<lparr>prev_pos := NaN\<rparr>)
   \<and> seed_prev_pos (soft_edge_handle\<lparr>prev_pos := NaN\<rparr>) = Inr soft_edge_handle
   \<and> has_position_limits (limits soft_edge_handle)
   \<and> prev_pos soft_edge_handle = soft_min_position (soft_limits soft_edge_handle)
   \<and> prev_pos soft_edge_handle = Fin (- 0.5)
   \<and> PositionJointSoftLimitsHandle_soft_vel soft_edge_handle = Inr (Fin 0, Fin 2)
   \<and> PositionJointSoftLimitsHandle_bounds soft_edge_handle 1000000000 = Inr (Fin 0, Fin 1)
   \<and> PositionJointSoftLimitsHandle_enforceLimits (soft_edge_handle\<lparr>prev_pos := NaN\<rparr>)
        1000000000
        = Inr (soft_edge_handle\<lparr>jcmdh := joint (Fin 0), prev_pos := Fin 0\<rparr>)"
  by (simp add: PositionJointSoftLimitsHandle_init_def JointSoftLimitsHandle_init3_def
      PositionJointSoftLimitsHandle_enforceLimits_def PositionJointSoftLimitsHandle_bounds_def
      PositionJointSoftLimitsHandle_soft_vel_def soft_velocity_bounds_eq seed_prev_pos_def
      soft_edge_handle_def pathological_limits_def scenario_soft_limits_def joint_def
      quiet_NaN_def clamp_eq clamp_value_def std_max_def std_min_def Let_def)

subsection \<open>The invariant of the spec\<close>

text \<open>
  Claim C1 says that the interval of every cycle lies within the hard limits declared
  present, also on a first cycle whose cached position is seeded from a measured position
  outside the hard band, and that the written command lies in it. The code does not do
  that. A \<open>PositionJointSaturationHandle\<close> with limits \<open>[-1, 1]\<close> and \<open>max_velocity = 2\<close>,
  first cycle, measured position \<open>5\<close>, command \<open>0\<close>, period one second: the cached
  position is seeded with \<open>5\<close>, the interval is \<open>(3, 1)\<close>, whose lower bound \<open>3\<close> exceeds
  \<open>max_position = 1\<close> and its own upper bound; the assertion of \<open>clamp\<close> fails, and the
  expression \<open>clamp\<close> returns when assertions are compiled out is \<open>3\<close>, outside the band.
  A \<open>PositionJointSoftLimitsHandle\<close> on the same input (soft band \<open>[-0.5, 0.5]\<close>,
  \<open>k_position = 10\<close>) computes the same interval \<open>(3, 1)\<close> and fails the same way.
\<close>

theorem position_saturation_seeded_outside_band:
  "PositionJointSaturationHandle_init (joint (Fin 5)) (joint (Fin 0)) position_scenario_limits
     = position_outside_handle\<lparr>prev_pos := NaN\<rparr>
   \<and> seed_prev_pos (position_outside_handle\<lparr>prev_pos := NaN\<rparr>) = Inr position_outside_handle
   \<and> has_position_limits (limits position_outside_handle)
   \<and> min_position (limits position_outside_handle) = Fin (- 1)
   \<and> max_position (limits position_outside_handle) = Fin 1
   \<and> PositionJointSaturationHandle_bounds position_outside_handle 1000000000 = (Fin 3, Fin 1)
   \<and> \<not> Fin 3 \<le> max_position (limits position_outside_handle)
   \<and> PositionJointSaturationHandle_enforceLimits (position_outside_handle\<lparr>prev_pos := NaN\<rparr>)
        1000000000 = Inl AssertionFailed
   \<and> clamp_value (Fin 0) (Fin 3) (Fin 1) = Fin 3
   \<and> PositionJointSoftLimitsHandle_init (joint (Fin 5)) (joint (Fin 0))
        position_scenario_limits scenario_soft_limits
        = Inr (soft_outside_handle\<lparr>prev_pos := NaN\<rparr>)
   \<and> seed_prev_pos (soft_outside_handle\<lparr>prev_pos := NaN\<rparr>) = Inr soft_outside_handle
   \<and> PositionJointSoftLimitsHandle_bounds soft_outside_handle 1000000000
        = Inr (Fin 3, Fin 1)
   \<and> PositionJointSoftLimitsHandle_enforceLimits (soft_outside_handle\<lparr>prev_pos := NaN\<rparr>)
        1000000000 = Inl AssertionFailed"
  by (simp add: PositionJointSaturationHandle_init_def
      PositionJointSaturationHandle_enforceLimits_def PositionJointSaturationHandle_bounds_def
      PositionJointSoftLimitsHandle_init_def JointSoftLimitsHandle_init3_def
      PositionJointSoftLimitsHandle_enforceLimits_def PositionJointSoftLimitsHandle_bounds_def
      PositionJointSoftLimitsHandle_soft_vel_def soft_velocity_bounds_eq
      seed_prev_pos_def position_outside_handle_def soft_outside_handle_def
      position_scenario_limits_def scenario_soft_limits_def joint_def
      quiet_NaN_def clamp_eq clamp_value_def std_max_def std_min_def Let_def)

subsection \<open>Loading soft limits\<close>

text \<open>
  Claim C8 says that \<open>getSoftJointLimits\<close> returns true and fills \<open>soft_limits\<close> exactly when
  \<open>k_position\<close>, \<open>k_velocity\<close>, \<open>soft_lower_limit\<close> and \<open>soft_upper_limit\<close> are all present,
  as the function's own documentation does. The code does not: on the parameters of the
  documentation's example, where all four are present, it returns false and leaves
  \<open>soft_limits\<close> as it was, because it also requires a parameter \<open>has_soft_limits\<close> that is
  true. With that parameter added it returns true and fills all four fields.
\<close>

theorem soft_limits_need_has_soft_limits:
  "has_parameter documented_node ''joint_limits.foo_joint.k_position''
   \<and> has_parameter documented_node ''joint_limits.foo_joint.k_velocity''
   \<and> has_parameter documented_node ''joint_limits.foo_joint.soft_lower_limit''
   \<and> has_parameter documented_node ''joint_limits.foo_joint.soft_upper_limit''
   \<and> getSoftJointLimits ''foo_joint'' documented_node scenario_soft_limits
        = Inr (False, scenario_soft_limits)
   \<and> getSoftJointLimits ''foo_joint'' flagged_node scenario_soft_limits
        = Inr (True, \<lparr>soft_min_position = Fin 0, soft_max_position = Fin 1,
                      k_position = Fin 10, k_velocity = Fin 10\<rparr>)"
  by (simp add: getSoftJointLimits_def has_parameter_def get_parameter_bool_def
      get_parameter_double_def documented_node_def flagged_node_def scenario_soft_limits_def
      Let_def)

end
